theory Spec2Isabelle
  imports Main
begin

section \<open>The ql adapter of upper.io/db: src/ql/database.go\<close>

text \<open>
  The file verified here is the session type \<open>Source\<close> of the ql adapter: the three
  execution primitives \<open>doExec\<close>, \<open>doQuery\<close> and \<open>doQueryRow\<close>, session set-up and
  cloning, \<open>Transaction\<close>, and the catalog readers \<open>Collections\<close>, \<open>tableExists\<close> and
  \<open>Collection\<close>.

  The code talks to Go's \<open>database/sql\<close>. Every call it makes there is written to a
  trace (a list of events, oldest first), and what the library answers is a function of
  the trace so far and of the call: any deterministic driver is such a function. A Go
  \<open>error\<close> that is \<open>nil\<close> is \<open>None\<close>, or the \<open>Inr\<close> side of a sum.
\<close>

subsection \<open>Errors\<close>

text \<open>
  The four sentinel errors of package \<open>db\<close> that this file returns, and \<open>ErrOther\<close> for
  an error value made elsewhere (by \<open>database/sql\<close>, the ql driver or \<open>sqlutil\<close>), with
  its message. \<open>PanicNilDeref\<close> is the run-time panic of a nil pointer dereference.
\<close>

datatype error =
    ErrNotConnected
  | ErrMissingDatabaseName
  | ErrMissingCollectionName
  | ErrCollectionDoesNotExists
  | ErrOther string
  | PanicNilDeref

subsection \<open>Values of database/sql\<close>

text \<open>A bound argument (\<open>interface{}\<close>): the kinds of value this model distinguishes.\<close>

datatype iface = INil | IString string | IInt int

type_synonym dbh = nat   \<comment> \<open>a non-nil \<open>*sql.DB\<close>\<close>
type_synonym txh = nat   \<comment> \<open>a non-nil \<open>*sql.Tx\<close>\<close>

datatype sql_result = SqlResult (lastInsertId: int) (rowsAffected: int)

type_synonym row = "iface list"
type_synonym rows = "row list"   \<comment> \<open>a \<open>*sql.Rows\<close> cursor: the rows it will yield\<close>

text \<open>
  A \<open>*sql.Row\<close> is never accompanied by an error: \<open>QueryRow\<close> stores the failure of
  the statement inside the value, to be reported by a later \<open>Scan\<close>.
\<close>

datatype sql_row = RowErr string | RowOf row

datatype event =
    SqlOpen string
  | DbBegin dbh
  | TxExec txh string "iface list"
  | TxQuery txh string "iface list"
  | TxQueryRow txh string "iface list"
  | TxCommit txh
  | RowsClose rows
  | DebugQuery string "iface list"

type_synonym trace = "event list"

text \<open>
  The library's answers. An error is its message; \<open>rows_scan\<close> is \<open>Scan\<close> into one
  \<open>*string\<close>: the value it wrote there (if it wrote one) and the error it returned.
\<close>

record driver =
  sql_open :: "trace \<Rightarrow> string \<Rightarrow> string + dbh"
  db_begin :: "trace \<Rightarrow> dbh \<Rightarrow> string + txh"
  tx_exec :: "trace \<Rightarrow> txh \<Rightarrow> string \<Rightarrow> iface list \<Rightarrow> string + sql_result"
  tx_query :: "trace \<Rightarrow> txh \<Rightarrow> string \<Rightarrow> iface list \<Rightarrow> string + rows"
  tx_query_row :: "trace \<Rightarrow> txh \<Rightarrow> string \<Rightarrow> iface list \<Rightarrow> sql_row"
  tx_commit :: "trace \<Rightarrow> txh \<Rightarrow> string option"
  rows_scan :: "row \<Rightarrow> string option \<times> string option"

subsection \<open>Statements and the rest of the environment\<close>

datatype stype =
    SqlTruncate | SqlDropTable | SqlDropDatabase | SqlSelectCount
  | SqlInsert | SqlSelect | SqlUpdate | SqlDelete

datatype sqlvalue = Raw string

record columnValue =
  cvColumn :: string
  cvOperator :: string
  cvValue :: sqlvalue

text \<open>The fields of \<open>sqlgen.Statement\<close> that this file sets.\<close>

record statement =
  stType :: stype
  stTable :: string
  stDatabase :: string
  stColumns :: "string list"
  stWhere :: "columnValue list"

record columnSchema_t =
  ColumnName :: string
  DataType :: string

text \<open>
  What the file uses and does not define: \<open>Compile\<close> is \<open>stmt.Compile(template)\<close> of
  package \<open>sqlgen\<close>; \<open>debugOn\<close> is whether the environment variable \<open>db.EnvEnableDebug\<close>
  is set to a non-empty string; \<open>ToLower\<close> is \<open>strings.ToLower\<close>; \<open>FetchRows\<close> is
  \<open>sqlutil.T.FetchRows\<close> on a slice of \<open>columnSchema_t\<close>, from the slice's contents
  before the call and the cursor to its contents after it, or an error.
\<close>

record env =
  Compile :: "statement \<Rightarrow> string"
  debugOn :: bool
  ToLower :: "string \<Rightarrow> string"
  FetchRows :: "columnSchema_t list \<Rightarrow> rows \<Rightarrow> string + columnSchema_t list"

subsection \<open>The session\<close>

record Settings =
  Database :: string   \<comment> \<open>the one field of \<open>db.Settings\<close> this file reads\<close>

text \<open>
  \<open>collections\<close> is \<open>None\<close> for the nil map of a fresh \<open>Source{}\<close>; the file makes the
  map in \<open>Setup\<close> and never stores into it.
\<close>

record Source =
  config :: Settings
  session :: "dbh option"
  collections :: "(string \<rightharpoonup> nat) option"
  tx :: "txh option"

subsection \<open>Placeholder renumbering\<close>

text \<open>\<open>strings.Replace(s, old, new, 1)\<close> for a one-byte \<open>old\<close>.\<close>

fun Replace1 :: "string \<Rightarrow> char \<Rightarrow> string \<Rightarrow> string" where
  "Replace1 [] old new = []"
| "Replace1 (c # cs) old new = (if c = old then new @ cs else c # Replace1 cs old new)"

text \<open>\<open>fmt.Sprintf(`%d`, n)\<close> for a non-negative \<open>n\<close>.\<close>

definition digit :: "nat \<Rightarrow> char" where
  "digit n = ''0123456789'' ! n"

fun decimal :: "nat \<Rightarrow> string" where
  "decimal n = (if n < 10 then [digit n] else decimal (n div 10) @ [digit (n mod 10)])"

declare decimal.simps [simp del]

definition param :: "nat \<Rightarrow> string" where
  "param n = CHR ''$'' # decimal n"

text \<open>
  The loop \<open>for i := 0; i < l; i++ { query = strings.Replace(query, `?`,
  fmt.Sprintf(`$%d`, i+1), 1) }\<close>, the same in the three primitives: \<open>renumberLoop i k\<close>
  runs it from \<open>i\<close> for the \<open>k = l - i\<close> rounds that are left.
\<close>

fun renumberLoop :: "nat \<Rightarrow> nat \<Rightarrow> string \<Rightarrow> string" where
  "renumberLoop i 0 query = query"
| "renumberLoop i (Suc k) query =
     renumberLoop (Suc i) k (Replace1 query (CHR ''?'') (param (i + 1)))"

definition renumber :: "string \<Rightarrow> iface list \<Rightarrow> string" where
  "renumber query args = renumberLoop 0 (length args) query"

subsection \<open>The execution primitives\<close>

definition debugQuery :: "env \<Rightarrow> string \<Rightarrow> iface list \<Rightarrow> trace \<Rightarrow> trace" where
  "debugQuery e query args t = (if debugOn e then t @ [DebugQuery query args] else t)"

definition doExec ::
  "driver \<Rightarrow> env \<Rightarrow> Source \<Rightarrow> statement \<Rightarrow> iface list \<Rightarrow> trace \<Rightarrow> (error + sql_result) \<times> trace"
where
  "doExec d e self stmt args t =
    (case session self of
      None \<Rightarrow> (Inl ErrNotConnected, t)
    | Some h \<Rightarrow>
        (let query = renumber (Compile e stmt) args;
             t0 = debugQuery e query args t
         in case tx self of
           None \<Rightarrow>
             (case db_begin d t0 h of
               Inl err \<Rightarrow> (Inl (ErrOther err), t0 @ [DbBegin h])
             | Inr x \<Rightarrow>
                 (case tx_exec d (t0 @ [DbBegin h]) x query args of
                   Inl err \<Rightarrow> (Inl (ErrOther err), t0 @ [DbBegin h, TxExec x query args])
                 | Inr res \<Rightarrow>
                     (case tx_commit d (t0 @ [DbBegin h, TxExec x query args]) x of
                       Some err \<Rightarrow>
                         (Inl (ErrOther err), t0 @ [DbBegin h, TxExec x query args, TxCommit x])
                     | None \<Rightarrow>
                         (Inr res, t0 @ [DbBegin h, TxExec x query args, TxCommit x]))))
         | Some x \<Rightarrow>
             (case tx_exec d t0 x query args of
               Inl err \<Rightarrow> (Inl (ErrOther err), t0 @ [TxExec x query args])
             | Inr res \<Rightarrow> (Inr res, t0 @ [TxExec x query args]))))"

definition doQuery ::
  "driver \<Rightarrow> env \<Rightarrow> Source \<Rightarrow> statement \<Rightarrow> iface list \<Rightarrow> trace \<Rightarrow> (error + rows) \<times> trace"
where
  "doQuery d e self stmt args t =
    (case session self of
      None \<Rightarrow> (Inl ErrNotConnected, t)
    | Some h \<Rightarrow>
        (let query = renumber (Compile e stmt) args;
             t0 = debugQuery e query args t
         in case tx self of
           None \<Rightarrow>
             (case db_begin d t0 h of
               Inl err \<Rightarrow> (Inl (ErrOther err), t0 @ [DbBegin h])
             | Inr x \<Rightarrow>
                 (case tx_query d (t0 @ [DbBegin h]) x query args of
                   Inl err \<Rightarrow> (Inl (ErrOther err), t0 @ [DbBegin h, TxQuery x query args])
                 | Inr rs \<Rightarrow>
                     (case tx_commit d (t0 @ [DbBegin h, TxQuery x query args]) x of
                       Some err \<Rightarrow>
                         (Inl (ErrOther err), t0 @ [DbBegin h, TxQuery x query args, TxCommit x])
                     | None \<Rightarrow>
                         (Inr rs, t0 @ [DbBegin h, TxQuery x query args, TxCommit x]))))
         | Some x \<Rightarrow>
             (case tx_query d t0 x query args of
               Inl err \<Rightarrow> (Inl (ErrOther err), t0 @ [TxQuery x query args])
             | Inr rs \<Rightarrow> (Inr rs, t0 @ [TxQuery x query args]))))"

text \<open>
  In \<open>doQueryRow\<close> the test after \<open>tx.QueryRow\<close> reads \<open>err\<close>, which \<open>QueryRow\<close> does
  not assign: it still holds the \<open>nil\<close> of the successful \<open>Begin\<close>, so the branch
  \<open>return nil, err\<close> there is never taken. The model keeps the test, on the value \<open>err\<close>
  has (\<open>None\<close>).
\<close>

definition doQueryRow ::
  "driver \<Rightarrow> env \<Rightarrow> Source \<Rightarrow> statement \<Rightarrow> iface list \<Rightarrow> trace \<Rightarrow> (error + sql_row) \<times> trace"
where
  "doQueryRow d e self stmt args t =
    (case session self of
      None \<Rightarrow> (Inl ErrNotConnected, t)
    | Some h \<Rightarrow>
        (let query = renumber (Compile e stmt) args;
             t0 = debugQuery e query args t
         in case tx self of
           None \<Rightarrow>
             (case db_begin d t0 h of
               Inl err \<Rightarrow> (Inl (ErrOther err), t0 @ [DbBegin h])
             | Inr x \<Rightarrow>
                 (let r = tx_query_row d (t0 @ [DbBegin h]) x query args;
                      err = (None :: string option)
                  in case err of
                    Some m \<Rightarrow> (Inl (ErrOther m), t0 @ [DbBegin h, TxQueryRow x query args])
                  | None \<Rightarrow>
                      (case tx_commit d (t0 @ [DbBegin h, TxQueryRow x query args]) x of
                        Some m \<Rightarrow>
                          (Inl (ErrOther m),
                           t0 @ [DbBegin h, TxQueryRow x query args, TxCommit x])
                      | None \<Rightarrow>
                          (Inr r, t0 @ [DbBegin h, TxQueryRow x query args, TxCommit x]))))
         | Some x \<Rightarrow>
             (Inr (tx_query_row d t0 x query args), t0 @ [TxQueryRow x query args])))"

subsection \<open>Opening, cloning, starting a transaction\<close>








subsection \<open>Reading the catalog\<close>

definition sqlPlaceholder :: sqlvalue where
  "sqlPlaceholder = Raw ''?''"

definition collectionsStmt :: statement where
  "collectionsStmt =
    \<lparr>stType = SqlSelect, stTable = ''__Table'', stDatabase = [], stColumns = [''Name''],
     stWhere = []\<rparr>"

text \<open>
  The loop of \<open>Collections\<close>: \<open>rows.Scan(&collection)\<close> with its error dropped, then the
  append. \<open>collection\<close> keeps its last value when \<open>Scan\<close> writes nothing.
\<close>

fun collectionsLoop :: "driver \<Rightarrow> rows \<Rightarrow> string \<Rightarrow> string list \<Rightarrow> string list" where
  "collectionsLoop d [] collection cs = cs"
| "collectionsLoop d (r # rs) collection cs =
     (let collection' = (case fst (rows_scan d r) of Some v \<Rightarrow> v | None \<Rightarrow> collection)
      in collectionsLoop d rs collection' (cs @ [collection']))"

definition Collections ::
  "driver \<Rightarrow> env \<Rightarrow> Source \<Rightarrow> trace \<Rightarrow> (error + string list) \<times> trace"
where
  "Collections d e self t =
    (case doQuery d e self collectionsStmt [] t of
      (Inl err, t1) \<Rightarrow> (Inl err, t1)
    | (Inr rs, t1) \<Rightarrow> (Inr (collectionsLoop d rs [] []), t1 @ [RowsClose rs]))"

definition tableExistsStmt :: statement where
  "tableExistsStmt =
    \<lparr>stType = SqlSelect, stTable = ''__Table'', stDatabase = [], stColumns = [''Name''],
     stWhere = [\<lparr>cvColumn = ''Name'', cvOperator = ''=='', cvValue = sqlPlaceholder\<rparr>]\<rparr>"

text \<open>
  \<open>tableExists\<close>: \<open>deferred\<close> holds the cursors whose \<open>Close\<close> is deferred, the latest
  first, which is the order they are closed in when the function returns.
\<close>

fun tableExistsLoop ::
  "driver \<Rightarrow> env \<Rightarrow> Source \<Rightarrow> string list \<Rightarrow> rows list \<Rightarrow> trace \<Rightarrow> error option \<times> trace"
where
  "tableExistsLoop d e self [] deferred t = (None, t @ map RowsClose deferred)"
| "tableExistsLoop d e self (name # names) deferred t =
     (case doQuery d e self tableExistsStmt [IString name] t of
       (Inl err, t1) \<Rightarrow> (Some ErrCollectionDoesNotExists, t1 @ map RowsClose deferred)
     | (Inr rs, t1) \<Rightarrow>
         (if (rs \<noteq> []) = False
          then (Some ErrCollectionDoesNotExists, t1 @ map RowsClose (rs # deferred))
          else tableExistsLoop d e self names (rs # deferred) t1))"

definition tableExists ::
  "driver \<Rightarrow> env \<Rightarrow> Source \<Rightarrow> string list \<Rightarrow> trace \<Rightarrow> error option \<times> trace"
where
  "tableExists d e self names t = tableExistsLoop d e self names [] t"

text \<open>\<open>strings.SplitN(s, sep, 2)\<close> for a one-byte \<open>sep\<close>.\<close>

definition SplitN2 :: "string \<Rightarrow> char \<Rightarrow> string list" where
  "SplitN2 s sep =
    (case dropWhile (\<lambda>c. c \<noteq> sep) s of
      [] \<Rightarrow> [s]
    | _ # rest \<Rightarrow> [takeWhile (\<lambda>c. c \<noteq> sep) s, rest])"

datatype Kind =
    reflect_Invalid | reflect_Bool
  | reflect_Int | reflect_Int8 | reflect_Int16 | reflect_Int32 | reflect_Int64
  | reflect_Uint | reflect_Uint8 | reflect_Uint16 | reflect_Uint32 | reflect_Uint64
  | reflect_Uintptr | reflect_Float32 | reflect_Float64
  | reflect_Complex64 | reflect_Complex128
  | reflect_Array | reflect_Chan | reflect_Func | reflect_Interface | reflect_Map
  | reflect_Ptr | reflect_Slice | reflect_String | reflect_Struct | reflect_UnsafePointer

definition timeType :: Kind where
  "timeType = reflect_Struct"   \<comment> \<open>\<open>reflect.TypeOf(time.Time{}).Kind()\<close>\<close>

text \<open>The \<open>switch dtype\<close> of \<open>Collection\<close>, case by case.\<close>

definition guessKind :: "string \<Rightarrow> Kind" where
  "guessKind dtype =
    (if dtype = ''int'' then reflect_Int
     else if dtype = ''int8'' then reflect_Int8
     else if dtype = ''int16'' then reflect_Int16
     else if dtype = ''int32'' \<or> dtype = ''rune'' then reflect_Int32
     else if dtype = ''int64'' then reflect_Int64
     else if dtype = ''uint'' then reflect_Uint
     else if dtype = ''uint8'' then reflect_Uint8
     else if dtype = ''uint16'' then reflect_Uint16
     else if dtype = ''uint32'' then reflect_Uint32
     else if dtype = ''uint64'' then reflect_Uint64
     else if dtype = ''float64'' then reflect_Float64
     else if dtype = ''float32'' then reflect_Float32
     else if dtype = ''time'' then timeType
     else reflect_String)"

text \<open>The loop over \<open>columns_t\<close> that fills \<open>col.ColumnTypes\<close>.\<close>

fun columnTypesLoop ::
  "env \<Rightarrow> columnSchema_t list \<Rightarrow> (string \<rightharpoonup> Kind) \<Rightarrow> (string \<rightharpoonup> Kind)"
where
  "columnTypesLoop e [] m = m"
| "columnTypesLoop e (column # cs) m =
     (let name = ToLower e (ColumnName column);
          dtype = ToLower e (DataType column)
      in columnTypesLoop e cs (m(name \<mapsto> guessKind dtype)))"

text \<open>
  \<open>Table\<close> is declared in another file of the package; these are the fields
  \<open>Collection\<close> sets. \<open>source\<close> is the session the handle was made from.
\<close>

record Table =
  source :: Source
  names :: "string list"
  PrimaryKey :: string
  ColumnTypes :: "string \<rightharpoonup> Kind"

definition columnsStmt :: statement where
  "columnsStmt =
    \<lparr>stType = SqlSelect, stTable = ''__Column'', stDatabase = [],
     stColumns = [''Name'', ''Type''],
     stWhere = [\<lparr>cvColumn = ''TableName'', cvOperator = ''=='', cvValue = sqlPlaceholder\<rparr>]\<rparr>"

text \<open>
  The loop over \<open>names\<close> in \<open>Collection\<close>. Its state is \<open>columns_t\<close>, which
  \<open>FetchRows\<close> is given again at every round, and \<open>col.ColumnTypes\<close>, made anew at
  every round.
\<close>

fun collectionLoop ::
  "driver \<Rightarrow> env \<Rightarrow> Source \<Rightarrow> string list \<Rightarrow> columnSchema_t list \<times> (string \<rightharpoonup> Kind) \<Rightarrow>
   trace \<Rightarrow> (error + columnSchema_t list \<times> (string \<rightharpoonup> Kind)) \<times> trace"
where
  "collectionLoop d e self [] st t = (Inr st, t)"
| "collectionLoop d e self (name # ns) st t =
     (let chunks = SplitN2 name (CHR '' '') in
      if 0 < length chunks then
        (let name' = hd chunks in
         case tableExists d e self [name'] t of
           (Some err, t1) \<Rightarrow> (Inl err, t1)
         | (None, t1) \<Rightarrow>
             (case doQuery d e self columnsStmt [IString name'] t1 of
               (Inl err, t2) \<Rightarrow> (Inl err, t2)
             | (Inr rs, t2) \<Rightarrow>
                 (case FetchRows e (fst st) rs of
                   Inl err \<Rightarrow> (Inl (ErrOther err), t2)
                 | Inr columns_t \<Rightarrow>
                     collectionLoop d e self ns
                       (columns_t, columnTypesLoop e columns_t Map.empty) t2)))
      else collectionLoop d e self ns st t)"

definition Collection ::
  "driver \<Rightarrow> env \<Rightarrow> Source \<Rightarrow> string list \<Rightarrow> trace \<Rightarrow> (error + Table) \<times> trace"
where
  "Collection d e self ns t =
    (if length ns = 0 then (Inl ErrMissingCollectionName, t)
     else
       (case collectionLoop d e self ns ([], Map.empty) t of
         (Inl err, t1) \<Rightarrow> (Inl err, t1)
       | (Inr st, t1) \<Rightarrow>
           (Inr \<lparr>source = self, names = ns, PrimaryKey = ''id'', ColumnTypes = snd st\<rparr>, t1)))"

section \<open>Notions the properties are stated with\<close>

subsection \<open>What the renumbered text is compared with\<close>

text \<open>
  A text with one \<open>?\<close> per bound value is \<open>joinQ s0 ss\<close>: the pieces between the
  placeholders, from left to right, none holding a \<open>?\<close>. \<open>joinParams k s0 ss\<close> is
  the same text with \<open>$k\<close>, \<open>$k+1\<close>, ... at the places of the placeholders, in that
  order. \<open>eventText\<close> is the SQL text an event carries.

  A positional-parameter token is a \<open>$\<close> followed by decimal digits, as many as there
  are; \<open>tokens\<close> reads a text from left to right and lists the numbers of its tokens.
\<close>

fun joinQ :: "string \<Rightarrow> string list \<Rightarrow> string" where
  "joinQ s0 [] = s0"
| "joinQ s0 (s # ss) = s0 @ CHR ''?'' # joinQ s ss"

fun joinParams :: "nat \<Rightarrow> string \<Rightarrow> string list \<Rightarrow> string" where
  "joinParams k s0 [] = s0"
| "joinParams k s0 (s # ss) = s0 @ param k @ joinParams (Suc k) s ss"

fun eventText :: "event \<Rightarrow> string option" where
  "eventText (TxExec x q args) = Some q"
| "eventText (TxQuery x q args) = Some q"
| "eventText (TxQueryRow x q args) = Some q"
| "eventText (DebugQuery q args) = Some q"
| "eventText ev = None"

definition isDigit :: "char \<Rightarrow> bool" where
  "isDigit c = (c \<in> set ''0123456789'')"

definition digitVal :: "char \<Rightarrow> nat" where
  "digitVal c =
    (case map_of (zip ''0123456789'' [0, 1, 2, 3, 4, 5, 6, 7, 8, 9]) c of
      Some v \<Rightarrow> v
    | None \<Rightarrow> 0)"

definition readDecimal :: "string \<Rightarrow> nat" where
  "readDecimal ds = foldl (\<lambda>a c. 10 * a + digitVal c) 0 ds"

fun tokens :: "string \<Rightarrow> nat list" where
  "tokens [] = []"
| "tokens (c # cs) =
     (if c = CHR ''$'' \<and> takeWhile isDigit cs \<noteq> []
      then readDecimal (takeWhile isDigit cs) # tokens cs
      else tokens cs)"

subsection \<open>Names and arguments\<close>

text \<open>
  \<open>firstToken name\<close> is the name up to its first space: the \<open>chunks[0]\<close> of
  \<open>Collection\<close>, as \<open>hd_SplitN2\<close> below shows. \<open>eventArgs\<close> is the argument list an
  event carries.
\<close>

definition firstToken :: "string \<Rightarrow> string" where
  "firstToken name = takeWhile (\<lambda>c. c \<noteq> CHR '' '') name"

fun eventArgs :: "event \<Rightarrow> iface list option" where
  "eventArgs (TxExec x q args) = Some args"
| "eventArgs (TxQuery x q args) = Some args"
| "eventArgs (TxQueryRow x q args) = Some args"
| "eventArgs (DebugQuery q args) = Some args"
| "eventArgs ev = None"

text \<open>The key and the kind that the loop over \<open>columns_t\<close> stores for a column.\<close>

definition columnKind :: "env \<Rightarrow> columnSchema_t \<Rightarrow> string \<times> Kind" where
  "columnKind e c = (ToLower e (ColumnName c), guessKind (ToLower e (DataType c)))"

section \<open>A small catalog to run the code on\<close>

text \<open>
  Instances of the parameters, for running the definitions above on concrete inputs;
  they are no part of the adapter. The catalog has one table \<open>t\<close> with the columns
  \<open>Id INT\<close> and \<open>Name string\<close>, behind a driver that never fails; the failing drivers
  used below are made from it by changing one answer. \<open>demoCompile\<close> stands in for the
  compiler of \<open>sqlgen\<close>: it writes the table and the conditions, with the placeholder
  the statement carries.
\<close>

definition asciiLower :: "char \<Rightarrow> char" where
  "asciiLower c =
    (case map_of (zip ''ABCDEFGHIJKLMNOPQRSTUVWXYZ'' ''abcdefghijklmnopqrstuvwxyz'') c of
      Some l \<Rightarrow> l
    | None \<Rightarrow> c)"

fun rawText :: "sqlvalue \<Rightarrow> string" where
  "rawText (Raw v) = v"

definition demoCompile :: "statement \<Rightarrow> string" where
  "demoCompile stmt =
    stTable stmt @
    concat (map (\<lambda>cv. '' '' @ cvColumn cv @ cvOperator cv @ rawText (cvValue cv)) (stWhere stmt))"

fun demoFetch :: "columnSchema_t list \<Rightarrow> rows \<Rightarrow> string + columnSchema_t list" where
  "demoFetch dst [] = Inr dst"
| "demoFetch dst ([IString n, IString ty] # rs) =
     demoFetch (dst @ [\<lparr>ColumnName = n, DataType = ty\<rparr>]) rs"
| "demoFetch dst (r # rs) = Inl ''bad row''"

definition demoEnv :: env where
  "demoEnv =
    \<lparr>Compile = demoCompile, debugOn = False, ToLower = map asciiLower, FetchRows = demoFetch\<rparr>"

fun demoScan :: "row \<Rightarrow> string option \<times> string option" where
  "demoScan [IString v] = (Some v, None)"
| "demoScan r = (None, Some ''unsupported Scan'')"

definition demoQuery :: "trace \<Rightarrow> txh \<Rightarrow> string \<Rightarrow> iface list \<Rightarrow> string + rows" where
  "demoQuery t x query args =
    (if args = [] then Inr [[IString ''t'']]
     else if args \<noteq> [IString ''t''] then Inr []
     else if take 8 query = ''__Table '' then Inr [[IString ''t'']]
     else Inr [[IString ''Id'', IString ''INT''], [IString ''Name'', IString ''string'']])"

definition demoDriver :: driver where
  "demoDriver =
    \<lparr>sql_open = (\<lambda>t name. Inr 1),
     db_begin = (\<lambda>t h. Inr 7),
     tx_exec = (\<lambda>t x query args. Inr (SqlResult 0 1)),
     tx_query = demoQuery,
     tx_query_row = (\<lambda>t x query args. RowOf [IString ''t'']),
     tx_commit = (\<lambda>t x. None),
     rows_scan = demoScan\<rparr>"

definition demoSource :: Source where
  "demoSource =
    \<lparr>config = \<lparr>Database = ''demo.db''\<rparr>, session = Some 1, collections = Some Map.empty,
     tx = None\<rparr>"

subsection \<open>Variants of the small catalog\<close>

text \<open>A compiler that always emits the same text, with two placeholders.\<close>

definition twoArgEnv :: env where
  "twoArgEnv = demoEnv\<lparr>Compile := (\<lambda>stmt. ''a=? AND b=?'')\<rparr>"

text \<open>
  Drivers that fail where asked: \<open>failingDriver b s c\<close> fails \<open>Begin\<close> with \<open>b\<close>, the
  statement with \<open>s\<close> and \<open>Commit\<close> with \<open>c\<close>, where these are given; a failed
  \<open>QueryRow\<close> hands back a row that holds the error.
\<close>

definition failingDriver :: "string option \<Rightarrow> string option \<Rightarrow> string option \<Rightarrow> driver" where
  "failingDriver b s c =
    demoDriver\<lparr>
      db_begin := (\<lambda>t h. case b of Some m \<Rightarrow> Inl m | None \<Rightarrow> Inr 7),
      tx_exec := (\<lambda>t x query args. case s of Some m \<Rightarrow> Inl m | None \<Rightarrow> Inr (SqlResult 0 1)),
      tx_query := (\<lambda>t x query args. case s of Some m \<Rightarrow> Inl m | None \<Rightarrow> demoQuery t x query args),
      tx_query_row := (\<lambda>t x query args. case s of Some m \<Rightarrow> RowErr m | None \<Rightarrow> RowOf [IString ''t'']),
      tx_commit := (\<lambda>t x. c)\<rparr>"

text \<open>A driver whose catalog listing has rows that \<open>Scan\<close> cannot read into a string.\<close>

definition mixedRowsDriver :: driver where
  "mixedRowsDriver =
    demoDriver\<lparr>tx_query := (\<lambda>t x query args. Inr [[IInt 3], [IString ''a''], [INil], [IString ''b'']])\<rparr>"

text \<open>
  A \<open>FetchRows\<close> that reports columns whose type names are not written the way the
  \<open>switch\<close> writes them, or are not in it at all.
\<close>

definition oddTypesFetch :: "columnSchema_t list \<Rightarrow> rows \<Rightarrow> string + columnSchema_t list" where
  "oddTypesFetch dst rs =
    Inr (dst @ [\<lparr>ColumnName = ''A'', DataType = ''Decimal128''\<rparr>,
                \<lparr>ColumnName = ''B'', DataType = ''STRING''\<rparr>,
                \<lparr>ColumnName = ''C'', DataType = ''Uint16''\<rparr>])"

definition oddTypesEnv :: env where
  "oddTypesEnv = demoEnv\<lparr>FetchRows := oddTypesFetch\<rparr>"



text \<open>A driver with the table \<open>t\<close> whose column query fails.\<close>

definition columnsFailDriver :: driver where
  "columnsFailDriver =
    demoDriver\<lparr>tx_query := (\<lambda>t x query args.
      if take 8 query = ''__Table '' then Inr [[IString ''t'']]
      else Inl ''metadata fetch failed'')\<rparr>"

section \<open>Properties\<close>

subsection \<open>A session that is not connected\<close>

text \<open>
  C4. A primitive called on a session whose connection handle is nil returns
  \<open>ErrNotConnected\<close> at once: no transaction is begun and nothing is sent or logged,
  so the trace is the one it was given.
\<close>

theorem not_connected_no_io:
  "session self = None \<Longrightarrow>
     doExec d e self stmt args t = (Inl ErrNotConnected, t) \<and>
     doQuery d e self stmt args t = (Inl ErrNotConnected, t) \<and>
     doQueryRow d e self stmt args t = (Inl ErrNotConnected, t)"
  by (simp add: doExec_def doQuery_def doQueryRow_def)

theorem not_connected_no_io_witness:
  "doExec demoDriver demoEnv (demoSource\<lparr>session := None\<rparr>) tableExistsStmt [IString ''t''] []
     = (Inl ErrNotConnected, []) \<and>
   doQuery demoDriver demoEnv (demoSource\<lparr>session := None\<rparr>) tableExistsStmt [IString ''t''] []
     = (Inl ErrNotConnected, []) \<and>
   doQueryRow demoDriver demoEnv (demoSource\<lparr>session := None\<rparr>) tableExistsStmt [IString ''t''] []
     = (Inl ErrNotConnected, [])"
  using not_connected_no_io [of "demoSource\<lparr>session := None\<rparr>" demoDriver demoEnv
      tableExistsStmt "[IString ''t'']" "[]"]
  by simp

subsection \<open>Placeholder renumbering\<close>

lemma Replace1_first:
  "old \<notin> set pre \<Longrightarrow> Replace1 (pre @ old # rest) old new = pre @ new @ rest"
  by (induction pre) auto

lemma digit_not_placeholder: "n < 10 \<Longrightarrow> digit n \<noteq> CHR ''?''"
proof -
  assume "n < 10"
  then have "n \<in> {0, 1, 2, 3, 4, 5, 6, 7, 8, 9}" by auto
  then show ?thesis by (auto simp: digit_def)
qed

lemma decimal_no_placeholder: "CHR ''?'' \<notin> set (decimal n)"
proof (induction n rule: decimal.induct)
  case (1 n)
  show ?case
  proof (cases "n < 10")
    case True
    then show ?thesis
      using digit_not_placeholder [of n] by (subst decimal.simps) auto
  next
    case False
    then have "CHR ''?'' \<notin> set (decimal (n div 10))"
      using 1 by simp
    moreover have "digit (n mod 10) \<noteq> CHR ''?''"
      by (rule digit_not_placeholder) simp
    ultimately show ?thesis
      using False by (subst decimal.simps) auto
  qed
qed

lemma param_no_placeholder: "CHR ''?'' \<notin> set (param n)"
  by (simp add: param_def decimal_no_placeholder)

text \<open>
  The loop invariant: after \<open>i\<close> rounds the text is a part \<open>pre\<close> without \<open>?\<close>,
  already renumbered, followed by what is still to do.
\<close>

lemma renumberLoop_join:
  "CHR ''?'' \<notin> set pre \<Longrightarrow> CHR ''?'' \<notin> set s0 \<Longrightarrow> \<forall>s\<in>set ss. CHR ''?'' \<notin> set s \<Longrightarrow>
   renumberLoop i (length ss) (pre @ joinQ s0 ss) = pre @ joinParams (Suc i) s0 ss"
proof (induction ss arbitrary: i pre s0)
  case Nil
  then show ?case by simp
next
  case (Cons s ss)
  have r: "Replace1 ((pre @ s0) @ CHR ''?'' # joinQ s ss) (CHR ''?'') (param (Suc i))
        = (pre @ s0) @ param (Suc i) @ joinQ s ss"
    by (rule Replace1_first) (use Cons.prems in simp)
  have "renumberLoop (Suc i) (length ss) ((pre @ s0 @ param (Suc i)) @ joinQ s ss)
        = (pre @ s0 @ param (Suc i)) @ joinParams (Suc (Suc i)) s ss"
    by (rule Cons.IH) (use Cons.prems param_no_placeholder in auto)
  with r show ?case by simp
qed

lemma renumber_join:
  assumes "\<forall>s\<in>set (s0 # ss). CHR ''?'' \<notin> set s" and "length args = length ss"
  shows "renumber (joinQ s0 ss) args = joinParams 1 s0 ss"
  using renumberLoop_join [of "[]" s0 ss 0] assms by (simp add: renumber_def)

text \<open>Reading the tokens back: \<open>decimal\<close> writes digits only, and they read as \<open>n\<close>.\<close>

lemma digit_cases: "n < 10 \<Longrightarrow> n \<in> {0, 1, 2, 3, 4, 5, 6, 7, 8, 9}" for n :: nat
  by auto

lemma digit_isDigit: "n < 10 \<Longrightarrow> isDigit (digit n)"
  using digit_cases [of n] by (auto simp: digit_def isDigit_def)

lemma digitVal_digit: "n < 10 \<Longrightarrow> digitVal (digit n) = n"
  using digit_cases [of n] by (auto simp: digit_def digitVal_def)

lemma isDigit_not_dollar: "isDigit c \<Longrightarrow> c \<noteq> CHR ''$''"
  by (auto simp: isDigit_def)

lemma decimal_digits: "\<forall>c\<in>set (decimal n). isDigit c"
proof (induction n rule: decimal.induct)
  case (1 n)
  show ?case
  proof (cases "n < 10")
    case True
    then show ?thesis
      using digit_isDigit [of n] by (subst decimal.simps) simp
  next
    case False
    then have "\<forall>c\<in>set (decimal (n div 10)). isDigit c"
      using 1 by simp
    moreover have "isDigit (digit (n mod 10))"
      by (rule digit_isDigit) simp
    ultimately show ?thesis
      using False by (subst decimal.simps) auto
  qed
qed

lemma decimal_nonempty: "decimal n \<noteq> []"
  by (subst decimal.simps) simp

lemma readDecimal_snoc: "readDecimal (ds @ [c]) = 10 * readDecimal ds + digitVal c"
  by (simp add: readDecimal_def)

lemma readDecimal_decimal: "readDecimal (decimal n) = n"
proof (induction n rule: decimal.induct)
  case (1 n)
  show ?case
  proof (cases "n < 10")
    case True
    then show ?thesis
      using digitVal_digit [of n] by (subst decimal.simps) (simp add: readDecimal_def)
  next
    case False
    then have "readDecimal (decimal (n div 10)) = n div 10"
      using 1 by simp
    moreover have "digitVal (digit (n mod 10)) = n mod 10"
      by (rule digitVal_digit) simp
    ultimately show ?thesis
      using False by (subst decimal.simps) (simp add: readDecimal_snoc)
  qed
qed

lemma tokens_no_dollar: "CHR ''$'' \<notin> set s \<Longrightarrow> tokens (s @ r) = tokens r"
  by (induction s) auto

lemma tokens_param:
  assumes "takeWhile isDigit r = []"
  shows "tokens (param k @ r) = k # tokens r"
proof -
  have tw: "takeWhile isDigit (decimal k @ r) = decimal k"
    using decimal_digits [of k] assms by (simp add: takeWhile_append)
  have nd: "CHR ''$'' \<notin> set (decimal k)"
    using decimal_digits [of k] isDigit_not_dollar by blast
  show ?thesis
    by (simp add: param_def tw decimal_nonempty readDecimal_decimal tokens_no_dollar [OF nd])
qed

lemma takeWhile_joinParams:
  "takeWhile isDigit s0 = [] \<Longrightarrow> takeWhile isDigit (joinParams k s0 ss) = []"
  by (cases ss; cases s0) (auto simp: param_def isDigit_def)

lemma tokens_joinParams:
  "\<forall>s\<in>set (s0 # ss). CHR ''$'' \<notin> set s \<Longrightarrow> \<forall>s\<in>set ss. takeWhile isDigit s = [] \<Longrightarrow>
   tokens (joinParams k s0 ss) = [k..<k + length ss]"
proof (induction ss arbitrary: k s0)
  case Nil
  then show ?case
    using tokens_no_dollar [of s0 "[]"] by simp
next
  case (Cons s ss)
  have ih: "tokens (joinParams (Suc k) s ss) = [Suc k..<Suc k + length ss]"
    by (rule Cons.IH) (use Cons.prems in auto)
  have tw: "takeWhile isDigit (joinParams (Suc k) s ss) = []"
    by (rule takeWhile_joinParams) (use Cons.prems in simp)
  have "tokens (joinParams k s0 (s # ss)) = tokens (param k @ joinParams (Suc k) s ss)"
    using Cons.prems by (simp add: tokens_no_dollar)
  also have "\<dots> = k # [Suc k..<Suc k + length ss]"
    by (simp add: tokens_param [OF tw] ih)
  also have "\<dots> = [k..<k + length (s # ss)]"
    by (simp add: upt_rec)
  finally show ?case .
qed

lemma joinParams_no_placeholder:
  "\<forall>s\<in>set (s0 # ss). CHR ''?'' \<notin> set s \<Longrightarrow> CHR ''?'' \<notin> set (joinParams k s0 ss)"
  by (induction ss arbitrary: k s0) (auto simp: param_no_placeholder)

text \<open>What the three primitives send, in each mode.\<close>

lemma primitives_send_explicit:
  assumes "session self = Some h" and "tx self = Some x"
    and "renumber (Compile e stmt) args = Q" and "t0 = debugQuery e Q args t"
  shows "snd (doExec d e self stmt args t) = t0 @ [TxExec x Q args]"
    and "snd (doQuery d e self stmt args t) = t0 @ [TxQuery x Q args]"
    and "snd (doQueryRow d e self stmt args t) = t0 @ [TxQueryRow x Q args]"
  using assms
  by (simp_all add: doExec_def doQuery_def doQueryRow_def Let_def split: sum.splits)

lemma primitives_send_autocommit:
  assumes "session self = Some h" and "tx self = None"
    and "renumber (Compile e stmt) args = Q" and "t0 = debugQuery e Q args t"
    and "db_begin d t0 h = Inr x"
  shows "take (length t0 + 2) (snd (doExec d e self stmt args t)) =
      t0 @ [DbBegin h, TxExec x Q args]"
    and "take (length t0 + 2) (snd (doQuery d e self stmt args t)) =
      t0 @ [DbBegin h, TxQuery x Q args]"
    and "take (length t0 + 2) (snd (doQueryRow d e self stmt args t)) =
      t0 @ [DbBegin h, TxQueryRow x Q args]"
  using assms
  by (simp_all add: doExec_def doQuery_def doQueryRow_def Let_def
      split: sum.splits option.splits)

lemma primitives_texts:
  assumes "renumber (Compile e stmt) args = Q"
  shows "\<forall>ev\<in>set (snd (doExec d e self stmt args t)). ev \<in> set t \<or> eventText ev \<in> {None, Some Q}"
    and "\<forall>ev\<in>set (snd (doQuery d e self stmt args t)). ev \<in> set t \<or> eventText ev \<in> {None, Some Q}"
    and "\<forall>ev\<in>set (snd (doQueryRow d e self stmt args t)). ev \<in> set t \<or> eventText ev \<in> {None, Some Q}"
  unfolding doExec_def doQuery_def doQueryRow_def Let_def assms debugQuery_def
  by (auto split: option.splits sum.splits)

text \<open>
  C3. Let the compiled text have one \<open>?\<close> for each of the \<open>N\<close> bound values: it is
  \<open>joinQ s0 ss\<close> with \<open>N\<close> pieces after the first and no other \<open>?\<close>. Then the
  renumbered text \<open>Q\<close> is the same pieces with \<open>$1\<close>, ..., \<open>$N\<close> at the places of the
  placeholders, from left to right, and no \<open>?\<close> is left. When the pieces bring no
  parameter syntax of their own (no \<open>$\<close>, and no digit right after a placeholder), the
  tokens of \<open>Q\<close> are exactly \<open>1, ..., N\<close> in this order. \<open>Q\<close> is what each of
  \<open>doExec\<close>, \<open>doQuery\<close> and \<open>doQueryRow\<close> sends with the arguments: inside an explicit
  transaction the call adds this one statement to the trace, and without one the
  statement follows the \<open>Begin\<close>; no event a primitive adds carries another text.
\<close>

theorem renumbered_positional:
  assumes "\<forall>s\<in>set (s0 # ss). CHR ''?'' \<notin> set s"
    and "length args = length ss"
    and "Compile e stmt = joinQ s0 ss"
    and "Q = joinParams 1 s0 ss"
    and "t0 = debugQuery e Q args t"
  shows "renumber (Compile e stmt) args = Q \<and> CHR ''?'' \<notin> set Q \<and>
    ((\<forall>s\<in>set (s0 # ss). CHR ''$'' \<notin> set s) \<and> (\<forall>s\<in>set ss. takeWhile isDigit s = []) \<longrightarrow>
       tokens Q = [1..<Suc (length args)]) \<and>
    (\<forall>h x. session self = Some h \<and> tx self = Some x \<longrightarrow>
       snd (doExec d e self stmt args t) = t0 @ [TxExec x Q args] \<and>
       snd (doQuery d e self stmt args t) = t0 @ [TxQuery x Q args] \<and>
       snd (doQueryRow d e self stmt args t) = t0 @ [TxQueryRow x Q args]) \<and>
    (\<forall>h x. session self = Some h \<and> tx self = None \<and> db_begin d t0 h = Inr x \<longrightarrow>
       take (length t0 + 2) (snd (doExec d e self stmt args t)) =
         t0 @ [DbBegin h, TxExec x Q args] \<and>
       take (length t0 + 2) (snd (doQuery d e self stmt args t)) =
         t0 @ [DbBegin h, TxQuery x Q args] \<and>
       take (length t0 + 2) (snd (doQueryRow d e self stmt args t)) =
         t0 @ [DbBegin h, TxQueryRow x Q args]) \<and>
    (\<forall>ev\<in>set (snd (doExec d e self stmt args t)).
        ev \<in> set t \<or> eventText ev \<in> {None, Some Q}) \<and>
    (\<forall>ev\<in>set (snd (doQuery d e self stmt args t)).
        ev \<in> set t \<or> eventText ev \<in> {None, Some Q}) \<and>
    (\<forall>ev\<in>set (snd (doQueryRow d e self stmt args t)).
        ev \<in> set t \<or> eventText ev \<in> {None, Some Q})"
proof -
  have q: "renumber (Compile e stmt) args = Q"
    using renumber_join [OF assms(1,2)] assms(3,4) by simp
  have np: "CHR ''?'' \<notin> set Q"
    unfolding assms(4) by (rule joinParams_no_placeholder [OF assms(1)])
  have tk: "(\<forall>s\<in>set (s0 # ss). CHR ''$'' \<notin> set s) \<and> (\<forall>s\<in>set ss. takeWhile isDigit s = []) \<longrightarrow>
       tokens Q = [1..<Suc (length args)]"
    using tokens_joinParams [of s0 ss 1] assms(2,4) by simp
  have ex: "\<forall>h x. session self = Some h \<and> tx self = Some x \<longrightarrow>
       snd (doExec d e self stmt args t) = t0 @ [TxExec x Q args] \<and>
       snd (doQuery d e self stmt args t) = t0 @ [TxQuery x Q args] \<and>
       snd (doQueryRow d e self stmt args t) = t0 @ [TxQueryRow x Q args]"
    using primitives_send_explicit [OF _ _ q assms(5), of self _ _ d] by blast
  have au: "\<forall>h x. session self = Some h \<and> tx self = None \<and> db_begin d t0 h = Inr x \<longrightarrow>
       take (length t0 + 2) (snd (doExec d e self stmt args t)) =
         t0 @ [DbBegin h, TxExec x Q args] \<and>
       take (length t0 + 2) (snd (doQuery d e self stmt args t)) =
         t0 @ [DbBegin h, TxQuery x Q args] \<and>
       take (length t0 + 2) (snd (doQueryRow d e self stmt args t)) =
         t0 @ [DbBegin h, TxQueryRow x Q args]"
    using primitives_send_autocommit [OF _ _ q assms(5), of self _ d] by blast
  note tx = primitives_texts [OF q, of d self t]
  show ?thesis
    by (intro conjI) (rule q np tk ex au tx)+
qed

theorem renumbered_positional_witness:
  "CHR ''?'' \<notin> set ''a='' \<and> CHR ''?'' \<notin> set '' AND b='' \<and>
   CHR ''$'' \<notin> set ''a='' \<and> CHR ''$'' \<notin> set '' AND b='' \<and>
   takeWhile isDigit '' AND b='' = [] \<and>
   Compile twoArgEnv tableExistsStmt = joinQ ''a='' ['' AND b='', ''''] \<and>
   renumber (Compile twoArgEnv tableExistsStmt) [IInt 5, IString ''x''] = ''a=$1 AND b=$2'' \<and>
   tokens ''a=$1 AND b=$2'' = [1, 2] \<and>
   take 2 (snd (doExec demoDriver twoArgEnv demoSource tableExistsStmt [IInt 5, IString ''x''] []))
     = [DbBegin 1, TxExec 7 ''a=$1 AND b=$2'' [IInt 5, IString ''x'']] \<and>
   take 2 (snd (doQuery demoDriver twoArgEnv demoSource tableExistsStmt [IInt 5, IString ''x''] []))
     = [DbBegin 1, TxQuery 7 ''a=$1 AND b=$2'' [IInt 5, IString ''x'']] \<and>
   snd (doQueryRow demoDriver twoArgEnv (demoSource\<lparr>tx := Some 9\<rparr>) tableExistsStmt
       [IInt 5, IString ''x''] [])
     = [TxQueryRow 9 ''a=$1 AND b=$2'' [IInt 5, IString ''x'']]"
proof -
  have Q: "''a=$1 AND b=$2'' = joinParams 1 ''a='' ['' AND b='', '''']"
    by (simp add: param_def decimal.simps digit_def)
  have t0: "[] = debugQuery twoArgEnv ''a=$1 AND b=$2'' [IInt 5, IString ''x''] []"
    by (simp add: debugQuery_def twoArgEnv_def demoEnv_def)
  have p: "\<forall>s\<in>set [''a='', '' AND b='', '''']. CHR ''?'' \<notin> set s"
    by simp
  have l: "length [IInt 5, IString ''x''] = length ['' AND b='', '''']"
    by simp
  have c: "Compile twoArgEnv tableExistsStmt = joinQ ''a='' ['' AND b='', '''']"
    by (simp add: twoArgEnv_def demoEnv_def)
  have d: "takeWhile isDigit '' AND b='' = []" "takeWhile isDigit '''' = []"
    by (simp_all add: isDigit_def)
  have s: "session demoSource = Some 1" "tx demoSource = None"
    "session (demoSource\<lparr>tx := Some 9\<rparr>) = Some 1" "tx (demoSource\<lparr>tx := Some 9\<rparr>) = Some 9"
    by (simp_all add: demoSource_def)
  have b: "db_begin demoDriver [] 1 = Inr 7"
    by (simp add: demoDriver_def)
  note auto_commit = renumbered_positional [OF p l c Q t0, of demoSource demoDriver]
  note explicit = renumbered_positional [OF p l c Q t0,
      of "demoSource\<lparr>tx := Some 9\<rparr>" demoDriver]
  have r: "renumber (Compile twoArgEnv tableExistsStmt) [IInt 5, IString ''x''] =
      ''a=$1 AND b=$2''"
    using auto_commit by blast
  have "tokens ''a=$1 AND b=$2'' = [1..<Suc (length [IInt 5, IString ''x''])]"
    using auto_commit d by (simp del: tokens.simps)
  then have k: "tokens ''a=$1 AND b=$2'' = [1, 2]"
    by (simp add: upt_rec del: tokens.simps)
  have "take (length ([] :: trace) + 2)
      (snd (doExec demoDriver twoArgEnv demoSource tableExistsStmt [IInt 5, IString ''x''] []))
      = [] @ [DbBegin 1, TxExec 7 ''a=$1 AND b=$2'' [IInt 5, IString ''x'']] \<and>
    take (length ([] :: trace) + 2)
      (snd (doQuery demoDriver twoArgEnv demoSource tableExistsStmt [IInt 5, IString ''x''] []))
      = [] @ [DbBegin 1, TxQuery 7 ''a=$1 AND b=$2'' [IInt 5, IString ''x'']]"
    using auto_commit s(1,2) b by blast
  then have a: "take 2
      (snd (doExec demoDriver twoArgEnv demoSource tableExistsStmt [IInt 5, IString ''x''] []))
      = [DbBegin 1, TxExec 7 ''a=$1 AND b=$2'' [IInt 5, IString ''x'']] \<and>
    take 2
      (snd (doQuery demoDriver twoArgEnv demoSource tableExistsStmt [IInt 5, IString ''x''] []))
      = [DbBegin 1, TxQuery 7 ''a=$1 AND b=$2'' [IInt 5, IString ''x'']]"
    by (simp add: numeral_2_eq_2)
  have "snd (doQueryRow demoDriver twoArgEnv (demoSource\<lparr>tx := Some 9\<rparr>) tableExistsStmt
       [IInt 5, IString ''x''] [])
     = [] @ [TxQueryRow 9 ''a=$1 AND b=$2'' [IInt 5, IString ''x'']]"
    using explicit s(3,4) by blast
  then have x: "snd (doQueryRow demoDriver twoArgEnv (demoSource\<lparr>tx := Some 9\<rparr>)
       tableExistsStmt [IInt 5, IString ''x''] [])
     = [TxQueryRow 9 ''a=$1 AND b=$2'' [IInt 5, IString ''x'']]"
    by simp
  show ?thesis
    using c r k a x d(1) by (simp add: numeral_2_eq_2 del: tokens.simps)
qed

subsection \<open>The implicit transaction\<close>

text \<open>
  C2. \<open>doExec\<close> on a connected session with no explicit transaction first begins a
  transaction (after the debug report, if that is on). If \<open>Begin\<close> fails, its error is
  returned and the trace ends with the \<open>Begin\<close>. If the statement fails, its error is
  returned and the trace ends with the statement: there is no \<open>Commit\<close>. If the
  statement succeeds and \<open>Commit\<close> fails, the error of \<open>Commit\<close> is returned and the
  result is dropped. The result is returned, without an error, only when both succeed.
\<close>

theorem doExec_autocommit:
  assumes "session self = Some h" and "tx self = None"
    and "q = renumber (Compile e stmt) args" and "t0 = debugQuery e q args t"
  shows
    "(\<forall>m. db_begin d t0 h = Inl m \<longrightarrow>
        doExec d e self stmt args t = (Inl (ErrOther m), t0 @ [DbBegin h])) \<and>
     (\<forall>x m. db_begin d t0 h = Inr x \<and> tx_exec d (t0 @ [DbBegin h]) x q args = Inl m \<longrightarrow>
        doExec d e self stmt args t = (Inl (ErrOther m), t0 @ [DbBegin h, TxExec x q args])) \<and>
     (\<forall>x res m. db_begin d t0 h = Inr x \<and> tx_exec d (t0 @ [DbBegin h]) x q args = Inr res \<and>
          tx_commit d (t0 @ [DbBegin h, TxExec x q args]) x = Some m \<longrightarrow>
        doExec d e self stmt args t =
          (Inl (ErrOther m), t0 @ [DbBegin h, TxExec x q args, TxCommit x])) \<and>
     (\<forall>x res. db_begin d t0 h = Inr x \<and> tx_exec d (t0 @ [DbBegin h]) x q args = Inr res \<and>
          tx_commit d (t0 @ [DbBegin h, TxExec x q args]) x = None \<longrightarrow>
        doExec d e self stmt args t =
          (Inr res, t0 @ [DbBegin h, TxExec x q args, TxCommit x]))"
  using assms by (simp add: doExec_def Let_def)

theorem doExec_autocommit_witness:
  "doExec (failingDriver (Some ''busy'') None None) demoEnv demoSource tableExistsStmt [IString ''t''] []
     = (Inl (ErrOther ''busy''), [DbBegin 1]) \<and>
   doExec (failingDriver None (Some ''syntax'') None) demoEnv demoSource tableExistsStmt [IString ''t''] []
     = (Inl (ErrOther ''syntax''), [DbBegin 1, TxExec 7 ''__Table Name==$1'' [IString ''t'']]) \<and>
   doExec (failingDriver None None (Some ''full'')) demoEnv demoSource tableExistsStmt [IString ''t''] []
     = (Inl (ErrOther ''full''),
        [DbBegin 1, TxExec 7 ''__Table Name==$1'' [IString ''t''], TxCommit 7]) \<and>
   doExec (failingDriver None None None) demoEnv demoSource tableExistsStmt [IString ''t''] []
     = (Inr (SqlResult 0 1),
        [DbBegin 1, TxExec 7 ''__Table Name==$1'' [IString ''t''], TxCommit 7])"
proof -
  have q: "''__Table Name==$1'' = renumber (Compile demoEnv tableExistsStmt) [IString ''t'']"
    by (simp add: renumber_def demoEnv_def demoCompile_def tableExistsStmt_def
        sqlPlaceholder_def param_def decimal.simps digit_def)
  have t0: "[] = debugQuery demoEnv ''__Table Name==$1'' [IString ''t''] []"
    by (simp add: debugQuery_def demoEnv_def)
  have s: "session demoSource = Some 1" "tx demoSource = None"
    by (simp_all add: demoSource_def)
  show ?thesis
    using doExec_autocommit [OF s q t0, of "failingDriver (Some ''busy'') None None"]
      doExec_autocommit [OF s q t0, of "failingDriver None (Some ''syntax'') None"]
      doExec_autocommit [OF s q t0, of "failingDriver None None (Some ''full'')"]
      doExec_autocommit [OF s q t0, of "failingDriver None None None"]
    by (simp add: failingDriver_def demoDriver_def)
qed

text \<open>
  C9. \<open>doQueryRow\<close> on a connected session with no explicit transaction: when
  \<open>Begin\<close> succeeds, the trace is always \<open>Begin\<close>, \<open>QueryRow\<close>, \<open>Commit\<close>, whatever the
  statement did, and the only error returned is that of \<open>Commit\<close>; otherwise the row is
  returned, after the commit, also when it is a row that holds the statement's error.
  With the case that \<open>Begin\<close> fails, these are all the errors there are.
\<close>

theorem doQueryRow_autocommit:
  assumes "session self = Some h" and "tx self = None"
    and "q = renumber (Compile e stmt) args" and "t0 = debugQuery e q args t"
  shows
    "(\<forall>m. db_begin d t0 h = Inl m \<longrightarrow>
        doQueryRow d e self stmt args t = (Inl (ErrOther m), t0 @ [DbBegin h])) \<and>
     (\<forall>x. db_begin d t0 h = Inr x \<longrightarrow>
        snd (doQueryRow d e self stmt args t) =
          t0 @ [DbBegin h, TxQueryRow x q args, TxCommit x] \<and>
        fst (doQueryRow d e self stmt args t) =
          (case tx_commit d (t0 @ [DbBegin h, TxQueryRow x q args]) x of
            Some m \<Rightarrow> Inl (ErrOther m)
          | None \<Rightarrow> Inr (tx_query_row d (t0 @ [DbBegin h]) x q args)))"
  using assms by (simp add: doQueryRow_def Let_def split: option.splits)

theorem doQueryRow_autocommit_witness:
  "doQueryRow (failingDriver None (Some ''no such table'') None) demoEnv demoSource
      tableExistsStmt [IString ''t''] []
     = (Inr (RowErr ''no such table''),
        [DbBegin 1, TxQueryRow 7 ''__Table Name==$1'' [IString ''t''], TxCommit 7]) \<and>
   doQueryRow (failingDriver None (Some ''no such table'') (Some ''full'')) demoEnv demoSource
      tableExistsStmt [IString ''t''] []
     = (Inl (ErrOther ''full''),
        [DbBegin 1, TxQueryRow 7 ''__Table Name==$1'' [IString ''t''], TxCommit 7]) \<and>
   doQueryRow (failingDriver (Some ''busy'') None None) demoEnv demoSource
      tableExistsStmt [IString ''t''] []
     = (Inl (ErrOther ''busy''), [DbBegin 1])"
proof -
  have q: "''__Table Name==$1'' = renumber (Compile demoEnv tableExistsStmt) [IString ''t'']"
    by (simp add: renumber_def demoEnv_def demoCompile_def tableExistsStmt_def
        sqlPlaceholder_def param_def decimal.simps digit_def)
  have t0: "[] = debugQuery demoEnv ''__Table Name==$1'' [IString ''t''] []"
    by (simp add: debugQuery_def demoEnv_def)
  have s: "session demoSource = Some 1" "tx demoSource = None"
    by (simp_all add: demoSource_def)
  show ?thesis
    using doQueryRow_autocommit [OF s q t0, of "failingDriver None (Some ''no such table'') None"]
      doQueryRow_autocommit [OF s q t0, of "failingDriver None (Some ''no such table'') (Some ''full'')"]
      doQueryRow_autocommit [OF s q t0, of "failingDriver (Some ''busy'') None None"]
    by (simp add: failingDriver_def demoDriver_def prod_eq_iff)
qed

subsection \<open>Listing the collections\<close>

lemma collectionsLoop_length:
  "length (collectionsLoop d rs c cs) = length cs + length rs"
  by (induction rs arbitrary: c cs) (auto simp: Let_def)

lemma collectionsLoop_prefix:
  "i < length cs \<Longrightarrow> collectionsLoop d rs c cs ! i = cs ! i"
  by (induction rs arbitrary: c cs) (auto simp: Let_def nth_append)

lemma collectionsLoop_nth:
  "i < length rs \<Longrightarrow>
   collectionsLoop d rs c cs ! (length cs + i) =
     (case fst (rows_scan d (rs ! i)) of
       Some v \<Rightarrow> v
     | None \<Rightarrow> if i = 0 then c else collectionsLoop d rs c cs ! (length cs + i - 1))"
proof (induction rs arbitrary: c cs i)
  case Nil
  then show ?case by simp
next
  case (Cons r rs)
  define c' where "c' = (case fst (rows_scan d r) of Some v \<Rightarrow> v | None \<Rightarrow> c)"
  have step: "collectionsLoop d (r # rs) c cs = collectionsLoop d rs c' (cs @ [c'])"
    by (simp add: c'_def Let_def)
  show ?case
  proof (cases i)
    case 0
    have "collectionsLoop d rs c' (cs @ [c']) ! length cs = (cs @ [c']) ! length cs"
      by (rule collectionsLoop_prefix) simp
    then show ?thesis using 0 step by (simp add: c'_def)
  next
    case (Suc j)
    then have j: "j < length rs" using Cons.prems by simp
    have ih: "collectionsLoop d rs c' (cs @ [c']) ! (length (cs @ [c']) + j) =
      (case fst (rows_scan d (rs ! j)) of
         Some v \<Rightarrow> v
       | None \<Rightarrow> if j = 0 then c'
           else collectionsLoop d rs c' (cs @ [c']) ! (length (cs @ [c']) + j - 1))"
      by (rule Cons.IH [OF j])
    have first: "collectionsLoop d rs c' (cs @ [c']) ! length cs = c'"
      using collectionsLoop_prefix [of "length cs" "cs @ [c']" d rs c'] by simp
    show ?thesis
      using ih first Suc unfolding step by (cases j) (simp_all split: option.splits)
  qed
qed

text \<open>
  C10. When the catalog query of \<open>Collections\<close> succeeds, \<open>Collections\<close> returns a
  list and no error, whatever \<open>Scan\<close> returns for the rows: there is one entry for each
  row, and the entry of a row for which \<open>Scan\<close> wrote nothing is the entry before it
  (the empty string for the first row).
\<close>

theorem Collections_drops_scan_errors:
  assumes "doQuery d e self collectionsStmt [] t = (Inr rs, t1)"
  shows "\<exists>cs. Collections d e self t = (Inr cs, t1 @ [RowsClose rs]) \<and>
    length cs = length rs \<and>
    (\<forall>i<length rs. cs ! i =
      (case fst (rows_scan d (rs ! i)) of
        Some v \<Rightarrow> v
      | None \<Rightarrow> if i = 0 then [] else cs ! (i - 1)))"
proof -
  let ?cs = "collectionsLoop d rs [] []"
  have "Collections d e self t = (Inr ?cs, t1 @ [RowsClose rs])"
    using assms by (simp add: Collections_def)
  moreover have "length ?cs = length rs"
    by (simp add: collectionsLoop_length)
  moreover have "\<forall>i<length rs. ?cs ! i =
      (case fst (rows_scan d (rs ! i)) of
        Some v \<Rightarrow> v
      | None \<Rightarrow> if i = 0 then [] else ?cs ! (i - 1))"
    using collectionsLoop_nth [of _ rs d "[]" "[]"] by (auto split: option.splits)
  ultimately show ?thesis by blast
qed

theorem Collections_drops_scan_errors_witness:
  "snd (rows_scan mixedRowsDriver [IInt 3]) = Some ''unsupported Scan'' \<and>
   Collections mixedRowsDriver demoEnv demoSource [] =
     (Inr ['''', ''a'', ''a'', ''b''],
      [DbBegin 1, TxQuery 7 ''__Table'' [], TxCommit 7,
       RowsClose [[IInt 3], [IString ''a''], [INil], [IString ''b'']]])"
proof -
  let ?rs = "[[IInt 3], [IString ''a''], [INil], [IString ''b'']]"
  have q: "doQuery mixedRowsDriver demoEnv demoSource collectionsStmt [] [] =
      (Inr ?rs, [DbBegin 1, TxQuery 7 ''__Table'' [], TxCommit 7])"
    by (simp add: doQuery_def mixedRowsDriver_def demoDriver_def demoEnv_def demoSource_def
        debugQuery_def renumber_def demoCompile_def collectionsStmt_def)
  obtain cs where c: "Collections mixedRowsDriver demoEnv demoSource [] =
        (Inr cs, [DbBegin 1, TxQuery 7 ''__Table'' [], TxCommit 7] @ [RowsClose ?rs])"
      and l: "length cs = length ?rs"
      and n: "\<forall>i<length ?rs. cs ! i =
        (case fst (rows_scan mixedRowsDriver (?rs ! i)) of
          Some v \<Rightarrow> v
        | None \<Rightarrow> if i = 0 then [] else cs ! (i - 1))"
    using Collections_drops_scan_errors [OF q] by blast
  have sc: "rows_scan mixedRowsDriver = demoScan"
    by (simp add: mixedRowsDriver_def demoDriver_def)
  have "cs ! 0 = []" using n [rule_format, of 0] by (simp add: sc)
  moreover have "cs ! 1 = ''a''" using n [rule_format, of 1] by (simp add: sc)
  moreover have "cs ! 2 = cs ! 1" using n [rule_format, of 2] by (simp add: sc)
  moreover have "cs ! 3 = ''b''" using n [rule_format, of 3] by (simp add: sc)
  ultimately have "cs = ['''', ''a'', ''a'', ''b'']"
    using l by (intro nth_equalityI) (auto simp: less_Suc_eq numeral_eq_Suc)
  with c show ?thesis by (simp add: sc)
qed

subsection \<open>Running the small catalog\<close>

lemmas demo_defs =
  demoDriver_def demoEnv_def demoSource_def demoCompile_def demoQuery_def
  tableExistsStmt_def columnsStmt_def collectionsStmt_def sqlPlaceholder_def
  renumber_def param_def decimal.simps digit_def debugQuery_def

lemma demo_tableExists_t:
  "debugOn e = False \<Longrightarrow> Compile e = demoCompile \<Longrightarrow>
   tableExists demoDriver e demoSource [''t''] [] =
    (None, [DbBegin 1, TxQuery 7 ''__Table Name==$1'' [IString ''t''], TxCommit 7,
            RowsClose [[IString ''t'']]])"
  by (simp add: tableExists_def doQuery_def demo_defs)

lemma demo_columns_t:
  "debugOn e = False \<Longrightarrow> Compile e = demoCompile \<Longrightarrow>
   doQuery demoDriver e demoSource columnsStmt [IString ''t'']
      [DbBegin 1, TxQuery 7 ''__Table Name==$1'' [IString ''t''], TxCommit 7,
       RowsClose [[IString ''t'']]] =
    (Inr [[IString ''Id'', IString ''INT''], [IString ''Name'', IString ''string'']],
     [DbBegin 1, TxQuery 7 ''__Table Name==$1'' [IString ''t''], TxCommit 7,
      RowsClose [[IString ''t'']], DbBegin 1,
      TxQuery 7 ''__Column TableName==$1'' [IString ''t''], TxCommit 7])"
  by (simp add: doQuery_def demo_defs)

lemma SplitN2_t: "hd (SplitN2 ''t'' (CHR '' '')) = ''t''"
  by (simp add: SplitN2_def)

subsection \<open>Type resolution\<close>

text \<open>One round of the loop of \<open>Collection\<close> in which nothing fails.\<close>

lemma collectionLoop_round:
  assumes "tableExists d e self [hd (SplitN2 name (CHR '' ''))] t = (None, t1)"
    and "doQuery d e self columnsStmt [IString (hd (SplitN2 name (CHR '' '')))] t1 = (Inr rs, t2)"
    and "FetchRows e (fst st) rs = Inr cols"
  shows "collectionLoop d e self (name # ns) st t =
    collectionLoop d e self ns (cols, columnTypesLoop e cols Map.empty) t2"
proof -
  have "0 < length (SplitN2 name (CHR '' ''))"
    by (simp add: SplitN2_def split: list.splits)
  then show ?thesis using assms by (simp add: Let_def)
qed

text \<open>
  C5. For each catalog column the loop lower-cases the type name and takes its kind from
  the table that the \<open>switch\<close> is: the integer names \<open>int8\<close> ... \<open>uint64\<close> (and \<open>int\<close>,
  \<open>uint\<close>, \<open>rune\<close>), \<open>float32\<close>, \<open>float64\<close> and \<open>time\<close> have the kinds listed, and
  every string that is not one of the fourteen names of the \<open>switch\<close>, \<open>string\<close> among
  them, has the kind \<open>String\<close>. The step has no failing branch: when the existence
  check, the column query and \<open>FetchRows\<close> succeed, \<open>Collection\<close> returns a handle,
  whatever the type names are.
\<close>

theorem type_resolution_falls_back_to_string:
  "columnTypesLoop e (c # cs) m =
     columnTypesLoop e cs (m(ToLower e (ColumnName c) \<mapsto> guessKind (ToLower e (DataType c)))) \<and>
   map guessKind [''int8'', ''int16'', ''int32'', ''int64'',
       ''uint8'', ''uint16'', ''uint32'', ''uint64'', ''float32'', ''float64'', ''time''] =
     [reflect_Int8, reflect_Int16, reflect_Int32, reflect_Int64,
      reflect_Uint8, reflect_Uint16, reflect_Uint32, reflect_Uint64,
      reflect_Float32, reflect_Float64, timeType] \<and>
   map guessKind [''int'', ''uint'', ''rune''] = [reflect_Int, reflect_Uint, reflect_Int32] \<and>
   (dtype \<notin> set [''int'', ''int8'', ''int16'', ''int32'', ''rune'', ''int64'', ''uint'', ''uint8'',
       ''uint16'', ''uint32'', ''uint64'', ''float64'', ''float32'', ''time''] \<longrightarrow>
     guessKind dtype = reflect_String) \<and>
   guessKind ''string'' = reflect_String \<and>
   (tableExists d e self [hd (SplitN2 name (CHR '' ''))] t = (None, t1) \<and>
    doQuery d e self columnsStmt [IString (hd (SplitN2 name (CHR '' '')))] t1 = (Inr rs, t2) \<and>
    FetchRows e [] rs = Inr cols \<longrightarrow>
      Collection d e self [name] t =
        (Inr \<lparr>source = self, names = [name], PrimaryKey = ''id'',
              ColumnTypes = columnTypesLoop e cols Map.empty\<rparr>, t2))"
proof -
  have 1: "columnTypesLoop e (c # cs) m =
     columnTypesLoop e cs (m(ToLower e (ColumnName c) \<mapsto> guessKind (ToLower e (DataType c))))"
    by (simp add: Let_def)
  have 2: "map guessKind [''int8'', ''int16'', ''int32'', ''int64'',
       ''uint8'', ''uint16'', ''uint32'', ''uint64'', ''float32'', ''float64'', ''time''] =
     [reflect_Int8, reflect_Int16, reflect_Int32, reflect_Int64,
      reflect_Uint8, reflect_Uint16, reflect_Uint32, reflect_Uint64,
      reflect_Float32, reflect_Float64, timeType]"
    by (simp add: guessKind_def)
  have 3: "map guessKind [''int'', ''uint'', ''rune''] = [reflect_Int, reflect_Uint, reflect_Int32]"
    by (simp add: guessKind_def)
  have 4: "dtype \<notin> set [''int'', ''int8'', ''int16'', ''int32'', ''rune'', ''int64'', ''uint'', ''uint8'',
       ''uint16'', ''uint32'', ''uint64'', ''float64'', ''float32'', ''time''] \<longrightarrow>
     guessKind dtype = reflect_String"
    by (simp add: guessKind_def)
  have 5: "guessKind ''string'' = reflect_String"
    by (simp add: guessKind_def)
  have 6: "Collection d e self [name] t =
        (Inr \<lparr>source = self, names = [name], PrimaryKey = ''id'',
              ColumnTypes = columnTypesLoop e cols Map.empty\<rparr>, t2)"
    if "tableExists d e self [hd (SplitN2 name (CHR '' ''))] t = (None, t1)"
      and "doQuery d e self columnsStmt [IString (hd (SplitN2 name (CHR '' '')))] t1 = (Inr rs, t2)"
      and "FetchRows e [] rs = Inr cols"
    using collectionLoop_round [of d e self name t t1 rs t2 "([], Map.empty)" cols "[]"] that
    by (simp add: Collection_def)
  from 1 2 3 4 5 6 show ?thesis by blast
qed

theorem type_resolution_falls_back_to_string_witness:
  "guessKind ''decimal128'' = reflect_String \<and>
   (case fst (Collection demoDriver oddTypesEnv demoSource [''t''] []) of
     Inl err \<Rightarrow> False
   | Inr col \<Rightarrow>
       map (ColumnTypes col) [''a'', ''b'', ''c'', ''d''] =
         [Some reflect_String, Some reflect_String, Some reflect_Uint16, None])"
proof -
  have e: "debugOn oddTypesEnv = False" "Compile oddTypesEnv = demoCompile"
    by (simp_all add: oddTypesEnv_def demoEnv_def)
  have f: "FetchRows oddTypesEnv []
      [[IString ''Id'', IString ''INT''], [IString ''Name'', IString ''string'']] =
    Inr [\<lparr>ColumnName = ''A'', DataType = ''Decimal128''\<rparr>,
         \<lparr>ColumnName = ''B'', DataType = ''STRING''\<rparr>,
         \<lparr>ColumnName = ''C'', DataType = ''Uint16''\<rparr>]"
    by (simp add: oddTypesEnv_def oddTypesFetch_def)
  have l: "ToLower oddTypesEnv = map asciiLower"
    by (simp add: oddTypesEnv_def demoEnv_def)
  show ?thesis
    using type_resolution_falls_back_to_string [of oddTypesEnv _ _ _ "''decimal128''"
        demoDriver demoSource "''t''" "[]", unfolded SplitN2_t,
        THEN conjunct2, THEN conjunct2, THEN conjunct2]
      demo_tableExists_t [OF e] demo_columns_t [OF e] f
    by (simp add: l asciiLower_def Let_def guessKind_def)
qed

subsection \<open>The keys of the column types\<close>

lemma columnTypesLoop_dom:
  "dom (columnTypesLoop e cs m) = dom m \<union> (\<lambda>c. ToLower e (ColumnName c)) ` set cs"
  by (induction cs arbitrary: m) (auto simp: Let_def)

lemma columnTypesLoop_Some:
  "columnTypesLoop e cs m k = Some v \<Longrightarrow>
   m k = Some v \<or>
   (\<exists>c\<in>set cs. ToLower e (ColumnName c) = k \<and> v = guessKind (ToLower e (DataType c)))"
proof (induction cs arbitrary: m)
  case Nil
  then show ?case by simp
next
  case (Cons c cs)
  let ?m = "m(ToLower e (ColumnName c) \<mapsto> guessKind (ToLower e (DataType c)))"
  from Cons.prems have "columnTypesLoop e cs ?m k = Some v"
    by (simp add: Let_def)
  from Cons.IH [OF this] show ?case
    by (auto split: if_splits)
qed

lemma columnTypesLoop_map_of:
  "columnTypesLoop e cs m = m ++ map_of (rev (map (columnKind e) cs))"
proof (induction cs arbitrary: m)
  case Nil
  show ?case by simp
next
  case (Cons c cs)
  show ?case
    by (rule ext)
      (simp add: Let_def Cons.IH map_add_def columnKind_def split: option.splits)
qed

subsection \<open>The first token of a name\<close>

lemma SplitN2_nonempty: "0 < length (SplitN2 s sep)"
  by (simp add: SplitN2_def split: list.splits)

lemma hd_SplitN2: "hd (SplitN2 s sep) = takeWhile (\<lambda>c. c \<noteq> sep) s"
proof (cases "dropWhile (\<lambda>c. c \<noteq> sep) s")
  case Nil
  then have "\<forall>x\<in>set s. x \<noteq> sep"
    by (simp add: dropWhile_eq_Nil_conv)
  then have tw: "takeWhile (\<lambda>c. c \<noteq> sep) s = s"
    by (simp add: takeWhile_eq_all_conv)
  show ?thesis
    unfolding SplitN2_def Nil by (simp add: tw)
next
  case (Cons a rest)
  show ?thesis
    unfolding SplitN2_def Cons by simp
qed

lemma hd_SplitN2_token: "hd (SplitN2 (firstToken name) (CHR '' '')) = firstToken name"
  by (simp add: hd_SplitN2 firstToken_def)

lemma collectionLoop_step:
  "collectionLoop d e self (name # ns) st t =
     (case tableExists d e self [firstToken name] t of
       (Some err, t1) \<Rightarrow> (Inl err, t1)
     | (None, t1) \<Rightarrow>
         (case doQuery d e self columnsStmt [IString (firstToken name)] t1 of
           (Inl err, t2) \<Rightarrow> (Inl err, t2)
         | (Inr rs, t2) \<Rightarrow>
             (case FetchRows e (fst st) rs of
               Inl err \<Rightarrow> (Inl (ErrOther err), t2)
             | Inr columns_t \<Rightarrow>
                 collectionLoop d e self ns
                   (columns_t, columnTypesLoop e columns_t Map.empty) t2)))"
  using SplitN2_nonempty [of name "CHR '' ''"]
  unfolding firstToken_def by (simp add: Let_def hd_SplitN2)

lemma collectionLoop_tokens:
  "collectionLoop d e self (map firstToken ns) st t = collectionLoop d e self ns st t"
proof (induction ns arbitrary: st t)
  case Nil
  show ?case by simp
next
  case (Cons name ns)
  have tt: "firstToken (firstToken name) = firstToken name"
    by (simp add: firstToken_def)
  show ?case
    unfolding list.map collectionLoop_step tt Cons.IH ..
qed

lemma doQuery_events:
  "ev \<in> set (snd (doQuery d e self stmt args t)) \<Longrightarrow>
   ev \<in> set t \<or> eventArgs ev = None \<or> eventArgs ev = Some args"
  unfolding doQuery_def Let_def debugQuery_def
  by (auto split: option.splits sum.splits if_splits)

lemma tableExistsLoop_events:
  "ev \<in> set (snd (tableExistsLoop d e self ns deferred t)) \<Longrightarrow>
   ev \<in> set t \<or> eventArgs ev = None \<or> (\<exists>n\<in>set ns. eventArgs ev = Some [IString n])"
proof (induction ns arbitrary: deferred t)
  case Nil
  then show ?case by auto
next
  case (Cons name ns)
  obtain r t1 where q: "doQuery d e self tableExistsStmt [IString name] t = (r, t1)"
    by (cases "doQuery d e self tableExistsStmt [IString name] t")
  have t1: "ev' \<in> set t \<or> eventArgs ev' = None \<or> eventArgs ev' = Some [IString name]"
    if "ev' \<in> set t1" for ev'
    using doQuery_events [of ev' d e self tableExistsStmt "[IString name]" t] that q by simp
  show ?case
  proof (cases r)
    case (Inl err)
    with Cons.prems q t1 [of ev] show ?thesis by auto
  next
    case (Inr rs)
    show ?thesis
    proof (cases "rs = []")
      case True
      with Cons.prems q Inr t1 [of ev] show ?thesis by auto
    next
      case False
      with Cons.prems q Inr have
        "ev \<in> set (snd (tableExistsLoop d e self ns (rs # deferred) t1))" by simp
      from Cons.IH [OF this] t1 [of ev] show ?thesis by auto
    qed
  qed
qed

lemma collectionLoop_events:
  "ev \<in> set (snd (collectionLoop d e self ns st t)) \<Longrightarrow>
   ev \<in> set t \<or> eventArgs ev = None \<or>
   (\<exists>n\<in>set ns. eventArgs ev = Some [IString (firstToken n)])"
proof (induction ns arbitrary: st t)
  case Nil
  then show ?case by simp
next
  case (Cons name ns)
  let ?n = "firstToken name"
  note prem = Cons.prems [unfolded collectionLoop_step]
  obtain r1 t1 where x: "tableExists d e self [?n] t = (r1, t1)"
    by (cases "tableExists d e self [?n] t")
  have e1: "ev' \<in> set t \<or> eventArgs ev' = None \<or> eventArgs ev' = Some [IString ?n]"
    if "ev' \<in> set t1" for ev'
    using tableExistsLoop_events [of ev' d e self "[?n]" "[]" t] that x
    by (simp add: tableExists_def)
  obtain r2 t2 where q: "doQuery d e self columnsStmt [IString ?n] t1 = (r2, t2)"
    by (cases "doQuery d e self columnsStmt [IString ?n] t1")
  have e2: "ev' \<in> set t \<or> eventArgs ev' = None \<or> eventArgs ev' = Some [IString ?n]"
    if "ev' \<in> set t2" for ev'
    using doQuery_events [of ev' d e self columnsStmt "[IString ?n]" t1] that q e1 by auto
  show ?case
  proof (cases r1)
    case (Some err)
    with prem x e1 [of ev] show ?thesis
      by auto
  next
    case None
    show ?thesis
    proof (cases r2)
      case (Inl err)
      with prem x None q e2 [of ev] show ?thesis
        by auto
    next
      case (Inr rs)
      show ?thesis
      proof (cases "FetchRows e (fst st) rs")
        case (Inl err)
        with prem x None q \<open>r2 = Inr rs\<close> e2 [of ev] show ?thesis
          by auto
      next
        case (Inr cols)
        with prem x None q \<open>r2 = Inr rs\<close> have
          "ev \<in> set (snd (collectionLoop d e self ns
              (cols, columnTypesLoop e cols Map.empty) t2))"
          by simp
        from Cons.IH [OF this] e2 [of ev] show ?thesis by auto
      qed
    qed
  qed
qed

text \<open>
  C7. \<open>Collection\<close> does with a list of names what it does with the list of their
  first tokens, except that the handle stores the names as they were given, modifiers
  included; every statement it sends (the existence check and the column query) is bound
  to the first token of one of the names; and the first token of a name with a space is
  the part before the first space.
\<close>

theorem Collection_first_token:
  "Collection d e self ns t =
     (case Collection d e self (map firstToken ns) t of
       (Inl err, t1) \<Rightarrow> (Inl err, t1)
     | (Inr col, t1) \<Rightarrow> (Inr (col\<lparr>names := ns\<rparr>), t1)) \<and>
   (\<forall>col t1. Collection d e self ns t = (Inr col, t1) \<longrightarrow> names col = ns) \<and>
   (\<forall>ev\<in>set (snd (Collection d e self ns t)).
      ev \<in> set t \<or> eventArgs ev = None \<or>
      (\<exists>n\<in>set ns. eventArgs ev = Some [IString (firstToken n)])) \<and>
   (CHR '' '' \<notin> set tok \<longrightarrow> firstToken (tok @ CHR '' '' # modifier) = tok)"
proof -
  have 1: "Collection d e self ns t =
     (case Collection d e self (map firstToken ns) t of
       (Inl err, t1) \<Rightarrow> (Inl err, t1)
     | (Inr col, t1) \<Rightarrow> (Inr (col\<lparr>names := ns\<rparr>), t1))"
    by (simp add: Collection_def collectionLoop_tokens split: prod.splits sum.splits)
  have 2: "\<forall>col t1. Collection d e self ns t = (Inr col, t1) \<longrightarrow> names col = ns"
    by (auto simp: Collection_def split: if_splits prod.splits sum.splits)
  have 3: "\<forall>ev\<in>set (snd (Collection d e self ns t)).
      ev \<in> set t \<or> eventArgs ev = None \<or>
      (\<exists>n\<in>set ns. eventArgs ev = Some [IString (firstToken n)])"
  proof
    fix ev
    assume a: "ev \<in> set (snd (Collection d e self ns t))"
    show "ev \<in> set t \<or> eventArgs ev = None \<or>
      (\<exists>n\<in>set ns. eventArgs ev = Some [IString (firstToken n)])"
    proof (cases "ns = []")
      case True
      with a show ?thesis by (simp add: Collection_def)
    next
      case False
      with a have "ev \<in> set (snd (collectionLoop d e self ns ([], Map.empty) t))"
        by (auto simp: Collection_def split: prod.splits sum.splits)
      then show ?thesis by (rule collectionLoop_events)
    qed
  qed
  have 4: "CHR '' '' \<notin> set tok \<longrightarrow> firstToken (tok @ CHR '' '' # modifier) = tok"
    by (induction tok) (auto simp: firstToken_def)
  from 1 2 3 4 show ?thesis by blast
qed

lemma Collection_single_name:
  assumes "tableExists d e self [firstToken name] t = (None, t1)"
    and "doQuery d e self columnsStmt [IString (firstToken name)] t1 = (Inr rs, t2)"
    and "FetchRows e [] rs = Inr cols"
  shows "Collection d e self [name] t =
    (Inr \<lparr>source = self, names = [name], PrimaryKey = ''id'',
          ColumnTypes = columnTypesLoop e cols Map.empty\<rparr>, t2)"
  using assms by (simp add: Collection_def collectionLoop_step del: collectionLoop.simps(2))

lemma demo_Collection_t:
  "Collection demoDriver demoEnv demoSource [''t''] [] =
    (Inr \<lparr>source = demoSource, names = [''t''], PrimaryKey = ''id'',
          ColumnTypes = [''id'' \<mapsto> reflect_Int, ''name'' \<mapsto> reflect_String]\<rparr>,
     [DbBegin 1, TxQuery 7 ''__Table Name==$1'' [IString ''t''], TxCommit 7,
      RowsClose [[IString ''t'']], DbBegin 1,
      TxQuery 7 ''__Column TableName==$1'' [IString ''t''], TxCommit 7])"
proof -
  have e: "debugOn demoEnv = False" "Compile demoEnv = demoCompile"
    by (simp_all add: demoEnv_def)
  have s: "firstToken ''t'' = ''t''"
    by (simp add: firstToken_def)
  have f: "FetchRows demoEnv []
      [[IString ''Id'', IString ''INT''], [IString ''Name'', IString ''string'']] =
    Inr [\<lparr>ColumnName = ''Id'', DataType = ''INT''\<rparr>,
         \<lparr>ColumnName = ''Name'', DataType = ''string''\<rparr>]"
    by (simp add: demoEnv_def)
  have l: "ToLower demoEnv = map asciiLower"
    by (simp add: demoEnv_def)
  have c: "columnTypesLoop demoEnv
      [\<lparr>ColumnName = ''Id'', DataType = ''INT''\<rparr>,
       \<lparr>ColumnName = ''Name'', DataType = ''string''\<rparr>] Map.empty =
    [''id'' \<mapsto> reflect_Int, ''name'' \<mapsto> reflect_String]"
    by (simp add: l asciiLower_def guessKind_def Let_def)
  show ?thesis
    using Collection_single_name [of demoDriver demoEnv demoSource "''t''" "[]", unfolded s,
        OF demo_tableExists_t [OF e] demo_columns_t [OF e] f]
    unfolding c .
qed

text \<open>The loop over a list of names runs first over its front part, then over the rest.\<close>

lemma collectionLoop_append:
  "collectionLoop d e self (xs @ ys) st t =
    (case collectionLoop d e self xs st t of
      (Inl err, t1) \<Rightarrow> (Inl err, t1)
    | (Inr st1, t1) \<Rightarrow> collectionLoop d e self ys st1 t1)"
proof (induction xs arbitrary: st t)
  case Nil
  show ?case by simp
next
  case (Cons x xs)
  show ?case
    unfolding append_Cons collectionLoop_step
    by (simp add: Cons.IH split: prod.splits option.splits sum.splits)
qed

text \<open>
  C6. A handle that \<open>Collection\<close> returns comes from a non-empty list of names, and its
  \<open>ColumnTypes\<close> is made of the columns \<open>cols\<close> that \<open>FetchRows\<close> returned for the rows
  of the column query of the last name: it maps the lower-cased name of each of these
  columns to the kind of its lower-cased type (the later column wins where two names
  agree up to case), so its keys are exactly the lower-cased column names, and looking up
  the lower-cased form of any spelling \<open>q\<close> of a fetched column's name finds the kind of
  a fetched column whose name is \<open>q\<close> up to case.
\<close>

theorem ColumnTypes_keys_lowered:
  assumes "Collection d e self ns t = (Inr col, t')"
  shows "ns \<noteq> [] \<and>
    (\<exists>st0 t0 t1 rs cols.
      collectionLoop d e self (butlast ns) ([], Map.empty) t = (Inr st0, t0) \<and>
      tableExists d e self [firstToken (last ns)] t0 = (None, t1) \<and>
      doQuery d e self columnsStmt [IString (firstToken (last ns))] t1 = (Inr rs, t') \<and>
      FetchRows e (fst st0) rs = Inr cols \<and>
      ColumnTypes col = map_of (rev (map (columnKind e) cols)) \<and>
      dom (ColumnTypes col) = (\<lambda>c. ToLower e (ColumnName c)) ` set cols \<and>
      (\<forall>c\<in>set cols. \<forall>q. ToLower e q = ToLower e (ColumnName c) \<longrightarrow>
         (\<exists>c'\<in>set cols. ToLower e (ColumnName c') = ToLower e q \<and>
            ColumnTypes col (ToLower e q) = Some (guessKind (ToLower e (DataType c'))))))"
proof -
  from assms have ne: "ns \<noteq> []"
    by (auto simp: Collection_def)
  then have ns: "ns = butlast ns @ [last ns]"
    by simp
  from assms ne obtain st where
    loop: "collectionLoop d e self ns ([], Map.empty) t = (Inr st, t')"
    and col: "ColumnTypes col = snd st"
    by (auto simp: Collection_def split: prod.splits sum.splits)
  from loop obtain st0 t0 where
    l0: "collectionLoop d e self (butlast ns) ([], Map.empty) t = (Inr st0, t0)"
    and l1: "collectionLoop d e self [last ns] st0 t0 = (Inr st, t')"
    by (subst (asm) ns, simp only: collectionLoop_append)
      (auto split: prod.splits sum.splits)
  from l1 obtain t1 rs cols where
    x: "tableExists d e self [firstToken (last ns)] t0 = (None, t1)"
    and q: "doQuery d e self columnsStmt [IString (firstToken (last ns))] t1 = (Inr rs, t')"
    and f: "FetchRows e (fst st0) rs = Inr cols"
    and st: "st = (cols, columnTypesLoop e cols Map.empty)"
    unfolding collectionLoop_step
    by (auto split: prod.splits option.splits sum.splits)
  have ct: "ColumnTypes col = map_of (rev (map (columnKind e) cols))"
    using col st by (simp add: columnTypesLoop_map_of)
  have dm: "dom (ColumnTypes col) = (\<lambda>c. ToLower e (ColumnName c)) ` set cols"
    using col st by (simp add: columnTypesLoop_dom)
  have lk: "\<exists>c'\<in>set cols. ToLower e (ColumnName c') = ToLower e q \<and>
        ColumnTypes col (ToLower e q) = Some (guessKind (ToLower e (DataType c')))"
    if "c \<in> set cols" and "ToLower e q = ToLower e (ColumnName c)" for c q
  proof -
    from that have "ToLower e q \<in> dom (ColumnTypes col)"
      unfolding dm by auto
    then obtain v where v: "ColumnTypes col (ToLower e q) = Some v"
      by auto
    have "columnTypesLoop e cols Map.empty (ToLower e q) = Some v"
      using v col st by simp
    from columnTypesLoop_Some [OF this] v show ?thesis
      by auto
  qed
  from ne l0 x q f ct dm lk show ?thesis by blast
qed

theorem ColumnTypes_keys_lowered_witness:
  "case fst (Collection demoDriver demoEnv demoSource [''t''] []) of
     Inl err \<Rightarrow> False
   | Inr col \<Rightarrow>
       dom (ColumnTypes col) = {''id'', ''name''} \<and>
       map (\<lambda>q. ColumnTypes col (ToLower demoEnv q)) [''ID'', ''Id'', ''id'', ''NAME''] =
         [Some reflect_Int, Some reflect_Int, Some reflect_Int, Some reflect_String]"
proof -
  let ?t1 = "[DbBegin 1, TxQuery 7 ''__Table Name==$1'' [IString ''t''], TxCommit 7,
      RowsClose [[IString ''t'']]]"
  let ?rs = "[[IString ''Id'', IString ''INT''], [IString ''Name'', IString ''string'']]"
  let ?cols = "[\<lparr>ColumnName = ''Id'', DataType = ''INT''\<rparr>,
      \<lparr>ColumnName = ''Name'', DataType = ''string''\<rparr>]"
  obtain col t' where c: "Collection demoDriver demoEnv demoSource [''t''] [] = (Inr col, t')"
    using demo_Collection_t by (rule that)
  have e: "debugOn demoEnv = False" "Compile demoEnv = demoCompile"
    by (simp_all add: demoEnv_def)
  have ft: "firstToken ''t'' = ''t''"
    by (simp add: firstToken_def)
  have l: "ToLower demoEnv = map asciiLower"
    by (simp add: demoEnv_def)
  from ColumnTypes_keys_lowered [OF c] obtain st0 t0 t1 rs cols where
    l0: "collectionLoop demoDriver demoEnv demoSource (butlast [''t'']) ([], Map.empty) [] =
        (Inr st0, t0)"
    and x: "tableExists demoDriver demoEnv demoSource [firstToken (last [''t''])] t0 = (None, t1)"
    and q: "doQuery demoDriver demoEnv demoSource columnsStmt
        [IString (firstToken (last [''t'']))] t1 = (Inr rs, t')"
    and f: "FetchRows demoEnv (fst st0) rs = Inr cols"
    and dm: "dom (ColumnTypes col) = (\<lambda>c. ToLower demoEnv (ColumnName c)) ` set cols"
    and ct: "ColumnTypes col = map_of (rev (map (columnKind demoEnv) cols))"
    by (elim conjE exE)
  from l0 have s0: "st0 = ([], Map.empty)" "t0 = []"
    by simp_all
  have lt: "firstToken (last [''t'']) = ''t''"
    by (simp add: firstToken_def)
  have t1: "t1 = ?t1"
    using x [unfolded lt s0] demo_tableExists_t [OF e] by simp
  have rs: "rs = ?rs"
    using q [unfolded lt t1] demo_columns_t [OF e] by simp
  from f have cols: "cols = ?cols"
    by (simp add: s0 rs demoEnv_def)
  have 1: "dom (ColumnTypes col) = {''id'', ''name''}"
    unfolding dm cols by (simp add: l asciiLower_def)
  have 2: "map (\<lambda>q. ColumnTypes col (ToLower demoEnv q)) [''ID'', ''Id'', ''id'', ''NAME''] =
      [Some reflect_Int, Some reflect_Int, Some reflect_Int, Some reflect_String]"
    unfolding ct cols by (simp add: columnKind_def l asciiLower_def guessKind_def)
  from c 1 2 show ?thesis by simp
qed

theorem Collection_first_token_witness:
  "firstToken ''t desc'' = ''t'' \<and>
   Collection demoDriver demoEnv demoSource [''t desc''] [] =
    (Inr \<lparr>source = demoSource, names = [''t desc''], PrimaryKey = ''id'',
          ColumnTypes = [''id'' \<mapsto> reflect_Int, ''name'' \<mapsto> reflect_String]\<rparr>,
     [DbBegin 1, TxQuery 7 ''__Table Name==$1'' [IString ''t''], TxCommit 7,
      RowsClose [[IString ''t'']], DbBegin 1,
      TxQuery 7 ''__Column TableName==$1'' [IString ''t''], TxCommit 7])"
proof -
  have sp: "CHR '' '' \<notin> set ''t''"
    by simp
  have tk: "firstToken ''t desc'' = ''t''"
    using Collection_first_token [of demoDriver demoEnv demoSource "[''t desc'']" "[]"
        "''t''" "''desc''"] sp
    by simp
  show ?thesis
    using Collection_first_token [of demoDriver demoEnv demoSource "[''t desc'']" "[]"
        "''t''" "''desc''"]
    by (simp add: tk demo_Collection_t)
qed

subsection \<open>Cloning and transactions\<close>











subsection \<open>The existence check\<close>

lemma doQuery_errors:
  "doQuery d e self stmt args t = (Inl err, t1) \<Longrightarrow>
   err = ErrNotConnected \<or> (\<exists>m. err = ErrOther m)"
  by (auto simp: doQuery_def Let_def split: option.splits sum.splits)

lemma tableExistsLoop_errors:
  "fst (tableExistsLoop d e self ns deferred t) = Some err \<Longrightarrow>
   err = ErrCollectionDoesNotExists"
proof (induction ns arbitrary: deferred t)
  case Nil
  then show ?case by simp
next
  case (Cons name ns)
  then show ?case
    by (auto split: prod.splits sum.splits if_splits)
qed

text \<open>
  C1, as the code has it. \<open>tableExists\<close> returns no error other than
  \<open>ErrCollectionDoesNotExists\<close>. It returns it when the existence query succeeds with no
  row (the name is not in the catalog), and it returns the same error when the existence
  query itself fails, whatever the failure: the two cannot be told apart. It returns no
  error when the query yields a row. What is reported with its own error is a failure of
  the column query that \<open>Collection\<close> sends after the check, and that error is never
  \<open>ErrCollectionDoesNotExists\<close>.
\<close>

theorem tableExists_reports_missing_only:
  "(\<forall>err. fst (tableExists d e self ns t) = Some err \<longrightarrow> err = ErrCollectionDoesNotExists) \<and>
   (\<forall>t1. doQuery d e self tableExistsStmt [IString name] t = (Inr [], t1) \<longrightarrow>
      fst (tableExists d e self [name] t) = Some ErrCollectionDoesNotExists) \<and>
   (\<forall>rs t1. doQuery d e self tableExistsStmt [IString name] t = (Inr rs, t1) \<and> rs \<noteq> [] \<longrightarrow>
      fst (tableExists d e self [name] t) = None) \<and>
   (\<forall>err t1. doQuery d e self tableExistsStmt [IString name] t = (Inl err, t1) \<longrightarrow>
      fst (tableExists d e self [name] t) = Some ErrCollectionDoesNotExists) \<and>
   (\<forall>t1 err t2. tableExists d e self [firstToken name] t = (None, t1) \<and>
      doQuery d e self columnsStmt [IString (firstToken name)] t1 = (Inl err, t2) \<longrightarrow>
      Collection d e self [name] t = (Inl err, t2) \<and> err \<noteq> ErrCollectionDoesNotExists)"
proof -
  have 1: "\<forall>err. fst (tableExists d e self ns t) = Some err \<longrightarrow> err = ErrCollectionDoesNotExists"
    using tableExistsLoop_errors by (simp add: tableExists_def)
  have 2: "\<forall>t1. doQuery d e self tableExistsStmt [IString name] t = (Inr [], t1) \<longrightarrow>
      fst (tableExists d e self [name] t) = Some ErrCollectionDoesNotExists"
    by (simp add: tableExists_def)
  have 3: "\<forall>rs t1. doQuery d e self tableExistsStmt [IString name] t = (Inr rs, t1) \<and> rs \<noteq> [] \<longrightarrow>
      fst (tableExists d e self [name] t) = None"
    by (simp add: tableExists_def)
  have 4: "\<forall>err t1. doQuery d e self tableExistsStmt [IString name] t = (Inl err, t1) \<longrightarrow>
      fst (tableExists d e self [name] t) = Some ErrCollectionDoesNotExists"
    by (simp add: tableExists_def)
  have 5: "Collection d e self [name] t = (Inl err, t2) \<and> err \<noteq> ErrCollectionDoesNotExists"
    if "tableExists d e self [firstToken name] t = (None, t1)"
      and "doQuery d e self columnsStmt [IString (firstToken name)] t1 = (Inl err, t2)"
    for t1 err t2
    using that doQuery_errors [OF that(2)]
    by (auto simp: Collection_def collectionLoop_step simp del: collectionLoop.simps(2))
  from 1 2 3 4 5 show ?thesis by blast
qed

text \<open>
  C1 as stated says that a failed existence query is reported distinctly from a missing
  table. Here the query for the existing table \<open>t\<close> fails with an I/O error, and
  \<open>tableExists\<close> reports what it reports for the missing table \<open>u\<close> on a healthy
  connection.
\<close>

theorem failed_existence_check_counterexample:
  "fst (doQuery (failingDriver None (Some ''disk I/O error'') None) demoEnv demoSource
      tableExistsStmt [IString ''t''] []) = Inl (ErrOther ''disk I/O error'') \<and>
   fst (tableExists (failingDriver None (Some ''disk I/O error'') None) demoEnv demoSource
      [''t''] []) = Some ErrCollectionDoesNotExists \<and>
   fst (doQuery demoDriver demoEnv demoSource tableExistsStmt [IString ''u''] []) = Inr [] \<and>
   fst (tableExists demoDriver demoEnv demoSource [''u''] []) = Some ErrCollectionDoesNotExists"
  by (simp add: tableExists_def doQuery_def failingDriver_def demo_defs)

theorem tableExists_reports_missing_only_witness:
  "fst (tableExists demoDriver demoEnv demoSource [''u''] []) = Some ErrCollectionDoesNotExists \<and>
   fst (tableExists demoDriver demoEnv demoSource [''t''] []) = None \<and>
   fst (tableExists demoDriver demoEnv (demoSource\<lparr>session := None\<rparr>) [''t''] []) =
     Some ErrCollectionDoesNotExists \<and>
   fst (Collection columnsFailDriver demoEnv demoSource [''t addendum''] []) =
     Inl (ErrOther ''metadata fetch failed'')"
proof -
  let ?t1 = "[DbBegin 1, TxQuery 7 ''__Table Name==$1'' [IString ''t''], TxCommit 7,
      RowsClose [[IString ''t'']]]"
  have u: "doQuery demoDriver demoEnv demoSource tableExistsStmt [IString ''u''] [] =
      (Inr [], [DbBegin 1, TxQuery 7 ''__Table Name==$1'' [IString ''u''], TxCommit 7])"
    by (simp add: doQuery_def demo_defs)
  have t: "doQuery demoDriver demoEnv demoSource tableExistsStmt [IString ''t''] [] =
      (Inr [[IString ''t'']], [DbBegin 1, TxQuery 7 ''__Table Name==$1'' [IString ''t''], TxCommit 7]) \<and>
      [[IString ''t'']] \<noteq> []"
    by (simp add: doQuery_def demo_defs)
  have n: "doQuery demoDriver demoEnv (demoSource\<lparr>session := None\<rparr>) tableExistsStmt
      [IString ''t''] [] = (Inl ErrNotConnected, [])"
    by (simp add: doQuery_def)
  have ft: "firstToken ''t addendum'' = ''t''"
    by (simp add: firstToken_def)
  have x: "tableExists columnsFailDriver demoEnv demoSource [''t''] [] = (None, ?t1)"
    by (simp add: tableExists_def doQuery_def columnsFailDriver_def demo_defs)
  have q: "doQuery columnsFailDriver demoEnv demoSource columnsStmt [IString ''t''] ?t1 =
      (Inl (ErrOther ''metadata fetch failed''),
       ?t1 @ [DbBegin 1, TxQuery 7 ''__Column TableName==$1'' [IString ''t'']])"
    by (simp add: doQuery_def columnsFailDriver_def demo_defs)
  show ?thesis
    using tableExists_reports_missing_only [of demoDriver demoEnv demoSource "[]" "[]" "''u''"] u
      tableExists_reports_missing_only [of demoDriver demoEnv demoSource "[]" "[]" "''t''"] t
      tableExists_reports_missing_only [of demoDriver demoEnv "demoSource\<lparr>session := None\<rparr>"
        "[]" "[]" "''t''"] n
      tableExists_reports_missing_only [of columnsFailDriver demoEnv demoSource "[]" "[]"
        "''t addendum''", unfolded ft] x q
    by simp
qed

end
